theory Spec2Isabelle
  imports Complex_Main "HOL-Library.AList"
begin

section \<open>Plot2D of sliceplots: a pseudocolor plot with attached 1D slices\<close>

text \<open>
  The development embeds \<^verbatim>\<open>src/sliceplots/two_dimensional.py\<close>. Array entries and
  coordinates are reals (the floating-point values of the arrays, without NaN). A 2D
  array is the list of its rows, all of one length. Exceptions are values of the type
  \<open>error\<close>: a function that can raise returns \<open>error + 'a\<close>, with \<open>Inl\<close> for the
  exception.
\<close>

subsection \<open>Exceptions and sequencing\<close>

datatype error = ValueError | IndexError | KeyError | AttributeError

definition bind_err :: "error + 'a \<Rightarrow> ('a \<Rightarrow> error + 'b) \<Rightarrow> error + 'b" where
  "bind_err m f = (case m of Inl e \<Rightarrow> Inl e | Inr x \<Rightarrow> f x)"

subsection \<open>The array operations the class calls\<close>

text \<open>\<^verbatim>\<open>np.min\<close> and \<^verbatim>\<open>np.max\<close> of a 1D array: a zero-size array raises ValueError.\<close>

definition np_min :: "real list \<Rightarrow> error + real" where
  "np_min xs = (case xs of [] \<Rightarrow> Inl ValueError | x # r \<Rightarrow> Inr (fold min r x))"

definition np_max :: "real list \<Rightarrow> error + real" where
  "np_max xs = (case xs of [] \<Rightarrow> Inl ValueError | x # r \<Rightarrow> Inr (fold max r x))"

text \<open>\<^verbatim>\<open>np.amin\<close> and \<^verbatim>\<open>np.amax\<close> of a 2D array reduce over all its entries.\<close>

definition np_amin :: "real list list \<Rightarrow> error + real" where
  "np_amin d = np_min (concat d)"

definition np_amax :: "real list list \<Rightarrow> error + real" where
  "np_amax d = np_max (concat d)"

text \<open>
  \<^verbatim>\<open>a[i]\<close> with an integer: a negative index counts from the end, and an index outside
  \<open>-len \<le> i < len\<close> raises IndexError.
\<close>

definition getitem :: "'a list \<Rightarrow> int \<Rightarrow> error + 'a" where
  "getitem xs i =
     (if 0 \<le> i \<and> i < int (length xs) then Inr (xs ! nat i)
      else if i < 0 \<and> - int (length xs) \<le> i then Inr (xs ! nat (int (length xs) + i))
      else Inl IndexError)"

text \<open>
  \<^verbatim>\<open>a[lo:hi]\<close> with non-negative bounds: the entries at the indices \<open>lo \<le> i < hi\<close> that
  exist; never an error. \<^verbatim>\<open>a[r0:r1, c0:c1]\<close> slices the rows, then every row.
\<close>

definition slice1 :: "nat \<Rightarrow> nat \<Rightarrow> 'a list \<Rightarrow> 'a list" where
  "slice1 lo hi xs = drop lo (take hi xs)"

definition slice2 :: "nat \<Rightarrow> nat \<Rightarrow> nat \<Rightarrow> nat \<Rightarrow> 'a list list \<Rightarrow> 'a list list" where
  "slice2 r0 r1 c0 c1 d = map (slice1 c0 c1) (slice1 r0 r1 d)"

text \<open>\<^verbatim>\<open>a[i, :]\<close> is row \<open>i\<close>; \<^verbatim>\<open>a[:, j]\<close> is column \<open>j\<close>. The index is non-negative here.\<close>

definition getrow :: "'a list list \<Rightarrow> nat \<Rightarrow> error + 'a list" where
  "getrow d i = (if i < length d then Inr (d ! i) else Inl IndexError)"

definition getcol :: "'a list list \<Rightarrow> nat \<Rightarrow> error + 'a list" where
  "getcol d j = (if list_all (\<lambda>r. j < length r) d then Inr (map (\<lambda>r. r ! j) d) else Inl IndexError)"

subsection \<open>The nearest-index lookup\<close>

text \<open>
  Modelled from the spec: \<^verbatim>\<open>idx_from_val\<close> is imported from \<^verbatim>\<open>sliceplots/util.py\<close>, which
  is not among the sources. Section 4.1 of the specification gives its contract: for a
  non-empty axis and a value it returns the index \<open>i\<close> minimising \<open>\<bar>axis[i] - value\<bar>\<close>,
  and of two equidistant indices the lower one wins. An empty axis violates the input
  constraint and is modelled as ValueError.
\<close>

primrec argmin_from :: "real list \<Rightarrow> nat \<Rightarrow> nat \<Rightarrow> real \<Rightarrow> nat" where
  "argmin_from [] i best bestv = best"
| "argmin_from (x # xs) i best bestv =
     (if x < bestv then argmin_from xs (Suc i) i x else argmin_from xs (Suc i) best bestv)"

definition argmin :: "real list \<Rightarrow> nat" where
  "argmin ds = (case ds of [] \<Rightarrow> 0 | x # xs \<Rightarrow> argmin_from xs 1 0 x)"

definition idx_from_val :: "real list \<Rightarrow> real \<Rightarrow> error + nat" where
  "idx_from_val arr1d val =
     (if arr1d = [] then Inl ValueError else Inr (argmin (map (\<lambda>a. \<bar>a - val\<bar>) arr1d)))"

subsection \<open>Keyword arguments and option dictionaries\<close>

text \<open>
  A style dictionary such as \<^verbatim>\<open>{"ls": "-", "color": "firebrick", "lw": 0.5}\<close> is an
  association list from keys to strings or numbers. \<^verbatim>\<open>d.update(u)\<close> stores every entry
  of \<open>u\<close> in \<open>d\<close>; \<^verbatim>\<open>d[k]\<close> raises KeyError on a missing key.
\<close>

datatype optval = Str string | Num real

type_synonym opts = "(string \<times> optval) list"

definition dict_update :: "opts \<Rightarrow> opts \<Rightarrow> opts" where
  "dict_update d u = fold (\<lambda>(k, v). AList.update k v) u d"

definition dict_getitem :: "opts \<Rightarrow> string \<Rightarrow> error + optval" where
  "dict_getitem d k = (case map_of d k of None \<Rightarrow> Inl KeyError | Some v \<Rightarrow> Inr v)"

text \<open>
  The keyword arguments \<^verbatim>\<open>**kwargs\<close> of the constructor: every recognised key is an
  optional field, \<open>None\<close> when the caller does not pass it.
\<close>

record kwargs =
  kw_extent :: "(real \<times> real \<times> real \<times> real) option"
  kw_vmin :: "real option"
  kw_vmax :: "real option"
  kw_hslice_val :: "real option"
  kw_vslice_val :: "real option"
  kw_hslice_opts :: "opts option"
  kw_vslice_opts :: "opts option"
  kw_cbar :: "bool option"
  kw_norm :: "string option"
  kw_text :: "string option"
  kw_figsize :: "(real \<times> real) option"
  kw_cmap :: "string option"

definition no_kwargs :: kwargs where
  "no_kwargs = \<lparr>kw_extent = None, kw_vmin = None, kw_vmax = None, kw_hslice_val = None,
     kw_vslice_val = None, kw_hslice_opts = None, kw_vslice_opts = None, kw_cbar = None,
     kw_norm = None, kw_text = None, kw_figsize = None, kw_cmap = None\<rparr>"

text \<open>\<^verbatim>\<open>kwargs.get(key, default)\<close>: the default has been evaluated before the call.\<close>

definition kwargs_get :: "'a option \<Rightarrow> 'a \<Rightarrow> 'a" where
  "kwargs_get v dflt = (case v of None \<Rightarrow> dflt | Some x \<Rightarrow> x)"

subsection \<open>What is drawn\<close>

text \<open>
  The calls into the plotting library are recorded, not rendered: an axes object is the
  record of what has been drawn on it. \<^verbatim>\<open>GridSpec(nrows, ncols, height_ratios,
  width_ratios)\<close> is the grid, and an axes object sits in one of its cells.
\<close>

record gridspec =
  nrows :: nat
  ncols :: nat
  height_ratios :: "nat list"
  width_ratios :: "nat list"

record image =
  im_data :: "real list list"
  im_extent :: "real \<times> real \<times> real \<times> real"
  im_norm :: "string option"
  im_cmap :: string
  im_vmin :: real
  im_vmax :: real

datatype line = Axhline real opts | Axvline real opts

text \<open>
  An annotation: the number that \<^verbatim>\<open>"{:.1f}".format\<close> prints, the data coordinates
  \<open>xy\<close>, the colour and whether the text is rotated to the vertical.
\<close>

record annotation =
  an_value :: real
  an_xy :: "real \<times> real"
  an_color :: optval
  an_vertical :: bool

record axes =
  grid :: gridspec
  cell :: "nat \<times> nat"
  sharex_ax0 :: bool
  sharey_ax0 :: bool
  xlabel :: string
  ylabel :: string
  lines :: "line list"
  annotations :: "annotation list"
  curve :: "(real list \<times> real list \<times> opts) option"
  xlim :: "(real \<times> real) option"
  ylim :: "(real \<times> real) option"
  xaxis_visible :: bool
  yaxis_visible :: bool
  hidden_spines :: "string list"
  texts :: "(real \<times> real \<times> string) list"
  inset_colorbar :: bool

definition add_subplot :: "gridspec \<Rightarrow> nat \<times> nat \<Rightarrow> bool \<Rightarrow> bool \<Rightarrow> axes" where
  "add_subplot gs c sx sy =
     \<lparr>grid = gs, cell = c, sharex_ax0 = sx, sharey_ax0 = sy, xlabel = [], ylabel = [],
      lines = [], annotations = [], curve = None, xlim = None, ylim = None,
      xaxis_visible = True, yaxis_visible = True, hidden_spines = [], texts = [],
      inset_colorbar = False\<rparr>"

text \<open>\<^verbatim>\<open>ax.plot(x, y, **opts)\<close> raises ValueError when \<open>x\<close> and \<open>y\<close> differ in length.\<close>

definition plot_xy :: "real list \<Rightarrow> real list \<Rightarrow> opts \<Rightarrow> axes \<Rightarrow> error + axes" where
  "plot_xy xs ys os ax =
     (if length xs = length ys then Inr (ax\<lparr>curve := Some (xs, ys, os)\<rparr>) else Inl ValueError)"

subsection \<open>The object\<close>

text \<open>
  The attributes of a \<^verbatim>\<open>Plot2D\<close> object. \<open>annot_text\<close> is \<^verbatim>\<open>self.text\<close> and \<open>norm_attr\<close>
  is \<^verbatim>\<open>self.norm\<close>; \<open>figsize\<close>, \<open>wspace\<close> and \<open>hspace\<close> stand for \<^verbatim>\<open>self.fig\<close>.
\<close>

record plot2d =
  extent :: "real \<times> real \<times> real \<times> real"
  data :: "real list list"
  min_data :: real
  max_data :: real
  vmin :: real
  vmax :: real
  h_axis :: "real list"
  v_axis :: "real list"
  label :: "string \<times> string \<times> string"
  cbar :: bool
  norm_attr :: "string option"
  hslice_val :: "real option"
  vslice_val :: "real option"
  hslice_idx :: "nat option"
  vslice_idx :: "nat option"
  annot_text :: string
  figsize :: "real \<times> real"
  wspace :: "real option"
  hspace :: "real option"
  im :: "image option"
  ax0 :: "axes option"
  axh :: "axes option"
  axv :: "axes option"

text \<open>A statement of a method: it updates the object or raises.\<close>

type_synonym stmt = "plot2d \<Rightarrow> error + plot2d"

fun run :: "stmt list \<Rightarrow> stmt" where
  "run [] self = Inr self"
| "run (st # sts) self = bind_err (st self) (run sts)"

text \<open>
  A call of a method of \<^verbatim>\<open>self.ax0\<close>, \<^verbatim>\<open>self.axh\<close> or \<^verbatim>\<open>self.axv\<close>: on \<open>None\<close> the
  attribute access raises AttributeError.
\<close>

definition on_ax0 :: "(plot2d \<Rightarrow> axes \<Rightarrow> error + axes) \<Rightarrow> stmt" where
  "on_ax0 f self =
     (case ax0 self of None \<Rightarrow> Inl AttributeError
      | Some a \<Rightarrow> bind_err (f self a) (\<lambda>a'. Inr (self\<lparr>ax0 := Some a'\<rparr>)))"

definition on_axh :: "(plot2d \<Rightarrow> axes \<Rightarrow> error + axes) \<Rightarrow> stmt" where
  "on_axh f self =
     (case axh self of None \<Rightarrow> Inl AttributeError
      | Some a \<Rightarrow> bind_err (f self a) (\<lambda>a'. Inr (self\<lparr>axh := Some a'\<rparr>)))"

definition on_axv :: "(plot2d \<Rightarrow> axes \<Rightarrow> error + axes) \<Rightarrow> stmt" where
  "on_axv f self =
     (case axv self of None \<Rightarrow> Inl AttributeError
      | Some a \<Rightarrow> bind_err (f self a) (\<lambda>a'. Inr (self\<lparr>axv := Some a'\<rparr>)))"

subsection \<open>The constructor up to the drawing (lines 58 to 106)\<close>

text \<open>
  The default of \<^verbatim>\<open>kwargs.get("extent", ...)\<close> is computed whether or not the caller
  passes an extent. \<open>crop_window\<close> is lines 58 to 64: the extent and the four indices
  found for it. The crop takes the half-open index windows
  \<^verbatim>\<open>[ymin_idx:ymax_idx, xmin_idx:xmax_idx]\<close>. The labels are the triple of the \<open>x\<close>, \<open>y\<close>
  and \<open>z\<close> label.
\<close>

definition crop_window ::
  "real list \<Rightarrow> real list \<Rightarrow> (real \<times> real \<times> real \<times> real) option
     \<Rightarrow> error + ((real \<times> real \<times> real \<times> real) \<times> nat \<times> nat \<times> nat \<times> nat)" where
  "crop_window h_axis0 v_axis0 ext =
     bind_err (np_min h_axis0) (\<lambda>hlo.
     bind_err (np_max h_axis0) (\<lambda>hhi.
     bind_err (np_min v_axis0) (\<lambda>vlo.
     bind_err (np_max v_axis0) (\<lambda>vhi.
     (case kwargs_get ext (hlo, hhi, vlo, vhi) of (xmin, xmax, ymin, ymax) \<Rightarrow>
     bind_err (idx_from_val h_axis0 xmin) (\<lambda>xmin_idx.
     bind_err (idx_from_val h_axis0 xmax) (\<lambda>xmax_idx.
     bind_err (idx_from_val v_axis0 ymin) (\<lambda>ymin_idx.
     bind_err (idx_from_val v_axis0 ymax) (\<lambda>ymax_idx.
     Inr ((xmin, xmax, ymin, ymax), xmin_idx, xmax_idx, ymin_idx, ymax_idx))))))))))"

text \<open>Lines 83 to 90: a slice coordinate, when given, is resolved on the cropped axis.\<close>

definition resolve_slice :: "real list \<Rightarrow> real option \<Rightarrow> error + nat option" where
  "resolve_slice axis sv =
     (case sv of None \<Rightarrow> Inr None
      | Some v \<Rightarrow> bind_err (idx_from_val axis v) (\<lambda>i. Inr (Some i)))"

definition Plot2D_attrs ::
  "real list list \<Rightarrow> real list \<Rightarrow> real list \<Rightarrow> string \<Rightarrow> string \<Rightarrow> string \<Rightarrow> kwargs
     \<Rightarrow> error + plot2d" where
  "Plot2D_attrs arr2d h_axis0 v_axis0 xl yl zl kw =
     bind_err (crop_window h_axis0 v_axis0 (kw_extent kw))
       (\<lambda>(ext, xmin_idx, xmax_idx, ymin_idx, ymax_idx).
     bind_err (np_amin (slice2 ymin_idx ymax_idx xmin_idx xmax_idx arr2d)) (\<lambda>mn.
     bind_err (np_amax (slice2 ymin_idx ymax_idx xmin_idx xmax_idx arr2d)) (\<lambda>mx.
     bind_err (resolve_slice (slice1 ymin_idx ymax_idx v_axis0) (kw_hslice_val kw)) (\<lambda>hi.
     bind_err (resolve_slice (slice1 xmin_idx xmax_idx h_axis0) (kw_vslice_val kw)) (\<lambda>vi.
     Inr \<lparr>extent = ext,
          data = slice2 ymin_idx ymax_idx xmin_idx xmax_idx arr2d,
          min_data = mn, max_data = mx,
          vmin = kwargs_get (kw_vmin kw) mn,
          vmax = kwargs_get (kw_vmax kw) mx,
          h_axis = slice1 xmin_idx xmax_idx h_axis0,
          v_axis = slice1 ymin_idx ymax_idx v_axis0,
          label = (xl, yl, zl),
          cbar = kwargs_get (kw_cbar kw) True,
          norm_attr = kw_norm kw,
          hslice_val = kw_hslice_val kw,
          vslice_val = kw_vslice_val kw,
          hslice_idx = hi,
          vslice_idx = vi,
          annot_text = kwargs_get (kw_text kw) [],
          figsize = kwargs_get (kw_figsize kw) (8, 8),
          wspace = None, hspace = None,
          im = None, ax0 = None, axh = None, axv = None\<rparr>)))))"

subsection \<open>main_panel (lines 134 to 148)\<close>

definition main_panel :: "kwargs \<Rightarrow> stmt" where
  "main_panel kw self =
     (case ax0 self of None \<Rightarrow> Inl AttributeError
      | Some a \<Rightarrow>
          Inr (self\<lparr>im := Some \<lparr>im_data = data self, im_extent = extent self,
                               im_norm = norm_attr self,
                               im_cmap = kwargs_get (kw_cmap kw) ''viridis'',
                               im_vmin = vmin self, im_vmax = vmax self\<rparr>,
                    ax0 := Some (a\<lparr>xlabel := fst (label self),
                                   ylabel := fst (snd (label self))\<rparr>)\<rparr>))"

subsection \<open>draw_fig (lines 150 to 297)\<close>

definition slice_opts :: opts where
  "slice_opts = [(''ls'', Str ''-''), (''color'', Str ''firebrick''), (''lw'', Num 0.5)]"

text \<open>Lines 152 to 156: a copy of the defaults, updated with the caller's dictionary.\<close>

definition hslice_opts_of :: "kwargs \<Rightarrow> opts" where
  "hslice_opts_of kw = dict_update slice_opts (kwargs_get (kw_hslice_opts kw) [])"

definition vslice_opts_of :: "kwargs \<Rightarrow> opts" where
  "vslice_opts_of kw = dict_update slice_opts (kwargs_get (kw_vslice_opts kw) [])"

text \<open>\<^verbatim>\<open>self.ax0.axhline(y=self.v_axis[self.hslice_idx], **hslice_opts)\<close>\<close>

definition axhline_stmt :: "nat \<Rightarrow> opts \<Rightarrow> plot2d \<Rightarrow> axes \<Rightarrow> error + axes" where
  "axhline_stmt i os self a =
     bind_err (getitem (v_axis self) (int i)) (\<lambda>y.
     Inr (a\<lparr>lines := lines a @ [Axhline y os]\<rparr>))"

text \<open>\<^verbatim>\<open>self.ax0.axvline(x=self.h_axis[self.vslice_idx], **vslice_opts)\<close>\<close>

definition axvline_stmt :: "nat \<Rightarrow> opts \<Rightarrow> plot2d \<Rightarrow> axes \<Rightarrow> error + axes" where
  "axvline_stmt j os self a =
     bind_err (getitem (h_axis self) (int j)) (\<lambda>x.
     Inr (a\<lparr>lines := lines a @ [Axvline x os]\<rparr>))"

text \<open>
  The annotation of the horizontal slice (lines 174 to 179 and 235 to 240): the
  arguments are evaluated from left to right.
\<close>

definition annotate_hslice :: "nat \<Rightarrow> opts \<Rightarrow> plot2d \<Rightarrow> axes \<Rightarrow> error + axes" where
  "annotate_hslice i os self a =
     bind_err (getitem (v_axis self) (int i)) (\<lambda>v.
     bind_err (getitem (h_axis self) 3) (\<lambda>x.
     bind_err (getitem (v_axis self) (int i + 3)) (\<lambda>y.
     bind_err (dict_getitem os ''color'') (\<lambda>c.
     Inr (a\<lparr>annotations := annotations a @
            [\<lparr>an_value = v, an_xy = (x, y), an_color = c, an_vertical = False\<rparr>]\<rparr>)))))"

text \<open>The annotation of the vertical slice (lines 203 to 209 and 242 to 248).\<close>

definition annotate_vslice :: "nat \<Rightarrow> opts \<Rightarrow> plot2d \<Rightarrow> axes \<Rightarrow> error + axes" where
  "annotate_vslice j os self a =
     bind_err (getitem (h_axis self) (int j)) (\<lambda>v.
     bind_err (getitem (h_axis self) (int j - 40)) (\<lambda>x.
     bind_err (getitem (v_axis self) (- 40)) (\<lambda>y.
     bind_err (dict_getitem os ''color'') (\<lambda>c.
     Inr (a\<lparr>annotations := annotations a @
            [\<lparr>an_value = v, an_xy = (x, y), an_color = c, an_vertical = True\<rparr>]\<rparr>)))))"

text \<open>
  The horizontal profile (lines 181 to 184 and 250 to 253): the \<open>z\<close> label, the row
  \<^verbatim>\<open>self.data[self.hslice_idx, :]\<close> against \<^verbatim>\<open>self.h_axis\<close>, the value limits.
\<close>

definition plot_hslice :: "nat \<Rightarrow> opts \<Rightarrow> plot2d \<Rightarrow> axes \<Rightarrow> error + axes" where
  "plot_hslice i os self a =
     bind_err (getrow (data self) i) (\<lambda>row.
     bind_err (plot_xy (h_axis self) row os (a\<lparr>ylabel := snd (snd (label self))\<rparr>)) (\<lambda>a'.
     Inr (a'\<lparr>ylim := Some (vmin self, vmax self)\<rparr>)))"

text \<open>
  The vertical profile (lines 211 to 214 and 256 to 259): the column
  \<^verbatim>\<open>self.data[:, self.vslice_idx]\<close> is the abscissa, \<^verbatim>\<open>self.v_axis\<close> the ordinate.
\<close>

definition plot_vslice :: "nat \<Rightarrow> opts \<Rightarrow> plot2d \<Rightarrow> axes \<Rightarrow> error + axes" where
  "plot_vslice j os self a =
     bind_err (getcol (data self) j) (\<lambda>col.
     bind_err (plot_xy col (v_axis self) os (a\<lparr>xlabel := snd (snd (label self))\<rparr>)) (\<lambda>a'.
     Inr (a'\<lparr>xlim := Some (vmin self, vmax self)\<rparr>)))"

text \<open>Hiding the shared axis and three of the four spines of a profile.\<close>

definition despine_h :: "plot2d \<Rightarrow> axes \<Rightarrow> error + axes" where
  "despine_h self a =
     Inr (a\<lparr>xaxis_visible := False, hidden_spines := [''top'', ''bottom'', ''right'']\<rparr>)"

definition despine_v :: "plot2d \<Rightarrow> axes \<Rightarrow> error + axes" where
  "despine_v self a =
     Inr (a\<lparr>yaxis_visible := False, hidden_spines := [''top'', ''left'', ''right'']\<rparr>)"

text \<open>The caption and the inset colorbar (lines 276 to 297).\<close>

definition caption_stmt :: "plot2d \<Rightarrow> axes \<Rightarrow> error + axes" where
  "caption_stmt self a = Inr (a\<lparr>texts := texts a @ [(0.02, 0.02, annot_text self)]\<rparr>)"

definition colorbar_stmt :: "plot2d \<Rightarrow> axes \<Rightarrow> error + axes" where
  "colorbar_stmt self a =
     (if cbar self then
        (case im self of None \<Rightarrow> Inl AttributeError
         | Some i \<Rightarrow> Inr (a\<lparr>inset_colorbar := True,
                           texts := texts a @ [(0.74, 0.97, snd (snd (label self)))]\<rparr>))
      else Inr a)"

text \<open>
  The four branches of \<^verbatim>\<open>draw_fig\<close>, each under the name of its layout: lines 160 to 162
  (no slice), 166 to 191 (horizontal slice), 195 to 221 (vertical slice) and 225 to 272
  (both). Each creates its grid and its axes and then runs its statements in order.
\<close>

definition draw_main_only :: "kwargs \<Rightarrow> stmt" where
  "draw_main_only kw self =
     (let gs = \<lparr>nrows = 1, ncols = 1, height_ratios = [1], width_ratios = [1]\<rparr>
      in run [main_panel kw]
           (self\<lparr>ax0 := Some (add_subplot gs (0, 0) False False)\<rparr>))"

definition draw_hslice :: "kwargs \<Rightarrow> nat \<Rightarrow> stmt" where
  "draw_hslice kw i self =
     (let gs = \<lparr>nrows = 2, ncols = 1, height_ratios = [1, 3], width_ratios = [1]\<rparr>
      in run [main_panel kw,
              on_ax0 (axhline_stmt i (hslice_opts_of kw)),
              on_ax0 (annotate_hslice i (hslice_opts_of kw)),
              on_axh (plot_hslice i (hslice_opts_of kw)),
              on_axh despine_h,
              (\<lambda>s. Inr (s\<lparr>hspace := Some 0.03\<rparr>))]
           (self\<lparr>ax0 := Some (add_subplot gs (1, 0) False False),
                 axh := Some (add_subplot gs (0, 0) True False)\<rparr>))"

definition draw_vslice :: "kwargs \<Rightarrow> nat \<Rightarrow> stmt" where
  "draw_vslice kw j self =
     (let gs = \<lparr>nrows = 1, ncols = 2, height_ratios = [1], width_ratios = [3, 1]\<rparr>
      in run [main_panel kw,
              on_ax0 (axvline_stmt j (vslice_opts_of kw)),
              on_ax0 (annotate_vslice j (vslice_opts_of kw)),
              on_axv (plot_vslice j (vslice_opts_of kw)),
              on_axv despine_v,
              (\<lambda>s. Inr (s\<lparr>wspace := Some 0.03\<rparr>))]
           (self\<lparr>ax0 := Some (add_subplot gs (0, 0) False False),
                 axv := Some (add_subplot gs (0, 1) False True)\<rparr>))"

definition draw_both :: "kwargs \<Rightarrow> nat \<Rightarrow> nat \<Rightarrow> stmt" where
  "draw_both kw i j self =
     (let gs = \<lparr>nrows = 2, ncols = 2, height_ratios = [1, 3], width_ratios = [3, 1]\<rparr>
      in run [main_panel kw,
              on_ax0 (axhline_stmt i (hslice_opts_of kw)),
              on_ax0 (axvline_stmt j (vslice_opts_of kw)),
              on_ax0 (annotate_hslice i (hslice_opts_of kw)),
              on_ax0 (annotate_vslice j (vslice_opts_of kw)),
              on_axh (plot_hslice i (hslice_opts_of kw)),
              on_axv (plot_vslice j (vslice_opts_of kw)),
              on_axh despine_h,
              on_axv despine_v,
              (\<lambda>s. Inr (s\<lparr>wspace := Some 0.03, hspace := Some 0.03\<rparr>))]
           (self\<lparr>ax0 := Some (add_subplot gs (1, 0) False False),
                 axh := Some (add_subplot gs (0, 0) True False),
                 axv := Some (add_subplot gs (1, 1) False True)\<rparr>))"

text \<open>Lines 276 to 297, after the branches.\<close>

definition draw_tail :: stmt where
  "draw_tail = run [on_ax0 caption_stmt, on_ax0 colorbar_stmt]"

text \<open>The chain of conditions of lines 159, 165, 194 and 224, as written.\<close>

definition draw_fig :: "kwargs \<Rightarrow> stmt" where
  "draw_fig kw self =
     bind_err
       (if hslice_idx self = None \<and> vslice_idx self = None then draw_main_only kw self
        else if hslice_idx self \<noteq> None \<and> vslice_idx self = None then
          draw_hslice kw (the (hslice_idx self)) self
        else if vslice_idx self \<noteq> None \<and> hslice_idx self = None then
          draw_vslice kw (the (vslice_idx self)) self
        else draw_both kw (the (hslice_idx self)) (the (vslice_idx self)) self)
       draw_tail"

subsection \<open>The constructor\<close>

definition Plot2D_init ::
  "real list list \<Rightarrow> real list \<Rightarrow> real list \<Rightarrow> string \<Rightarrow> string \<Rightarrow> string \<Rightarrow> kwargs
     \<Rightarrow> error + plot2d" where
  "Plot2D_init arr2d h_axis0 v_axis0 xl yl zl kw =
     bind_err (Plot2D_attrs arr2d h_axis0 v_axis0 xl yl zl kw) (draw_fig kw)"

subsection \<open>The four layouts, in the words of the specification\<close>

text \<open>
  Section 4.5 of the specification names four layouts. \<open>layout_of\<close> reads the layout
  off a drawn figure, following the table of that section: a single main panel; the main
  panel below a horizontal-slice panel that shares its horizontal axis; the main panel
  left of a vertical-slice panel that shares its vertical axis; the main panel in the
  lower left with both slice panels. The main panel is the larger one (ratio 3 to 1).
  A figure that fits no row of the table has no layout.
\<close>

datatype layout = Main_only | Main_hslice | Main_vslice | Main_both

definition layout_of :: "plot2d \<Rightarrow> layout option" where
  "layout_of p =
     (case (ax0 p, axh p, axv p) of
        (Some a, None, None) \<Rightarrow>
          (if grid a = \<lparr>nrows = 1, ncols = 1, height_ratios = [1], width_ratios = [1]\<rparr>
              \<and> cell a = (0, 0)
           then Some Main_only else None)
      | (Some a, Some b, None) \<Rightarrow>
          (if grid a = \<lparr>nrows = 2, ncols = 1, height_ratios = [1, 3], width_ratios = [1]\<rparr>
              \<and> grid b = grid a \<and> cell a = (1, 0) \<and> cell b = (0, 0)
              \<and> sharex_ax0 b \<and> \<not> sharey_ax0 b
           then Some Main_hslice else None)
      | (Some a, None, Some c) \<Rightarrow>
          (if grid a = \<lparr>nrows = 1, ncols = 2, height_ratios = [1], width_ratios = [3, 1]\<rparr>
              \<and> grid c = grid a \<and> cell a = (0, 0) \<and> cell c = (0, 1)
              \<and> sharey_ax0 c \<and> \<not> sharex_ax0 c
           then Some Main_vslice else None)
      | (Some a, Some b, Some c) \<Rightarrow>
          (if grid a = \<lparr>nrows = 2, ncols = 2, height_ratios = [1, 3], width_ratios = [3, 1]\<rparr>
              \<and> grid b = grid a \<and> grid c = grid a
              \<and> cell a = (1, 0) \<and> cell b = (0, 0) \<and> cell c = (1, 1)
              \<and> sharex_ax0 b \<and> \<not> sharey_ax0 b \<and> sharey_ax0 c \<and> \<not> sharex_ax0 c
           then Some Main_both else None)
      | _ \<Rightarrow> None)"

text \<open>The layout that the table of section 4.5 assigns to the two presence flags.\<close>

fun layout_table :: "bool \<Rightarrow> bool \<Rightarrow> layout" where
  "layout_table False False = Main_only"
| "layout_table True False = Main_hslice"
| "layout_table False True = Main_vslice"
| "layout_table True True = Main_both"

subsection \<open>Projections used in the proofs\<close>

text \<open>
  \<open>core\<close> forgets what the drawing sets (the image, the axes, the spacing) and keeps the
  attributes computed before it. \<open>geom\<close> is where each axes object sits: its grid, its
  cell and what it shares with the main panel.
\<close>

definition core :: "plot2d \<Rightarrow> plot2d" where
  "core s = s\<lparr>wspace := None, hspace := None, im := None, ax0 := None, axh := None, axv := None\<rparr>"

definition geom_ax :: "axes \<Rightarrow> gridspec \<times> (nat \<times> nat) \<times> bool \<times> bool" where
  "geom_ax a = (grid a, cell a, sharex_ax0 a, sharey_ax0 a)"

definition geom :: "plot2d \<Rightarrow> (gridspec \<times> (nat \<times> nat) \<times> bool \<times> bool) option \<times>
    (gridspec \<times> (nat \<times> nat) \<times> bool \<times> bool) option \<times> (gridspec \<times> (nat \<times> nat) \<times> bool \<times> bool) option" where
  "geom s = (map_option geom_ax (ax0 s), map_option geom_ax (axh s), map_option geom_ax (axv s))"

text \<open>The image that \<^verbatim>\<open>main_panel\<close> hands to \<^verbatim>\<open>imshow\<close> for an object \<open>s\<close>.\<close>

definition drawn_image :: "kwargs \<Rightarrow> plot2d \<Rightarrow> image" where
  "drawn_image kw s = \<lparr>im_data = data s, im_extent = extent s, im_norm = norm_attr s,
        im_cmap = kwargs_get (kw_cmap kw) ''viridis'', im_vmin = vmin s, im_vmax = vmax s\<rparr>"

text \<open>
  A statement on one axes object keeps the geometry when it leaves the grid, the cell
  and the sharing alone; a statement of the object is a frame statement when it changes
  nothing but what is drawn on the axes.
\<close>

definition keeps_geom :: "(plot2d \<Rightarrow> axes \<Rightarrow> error + axes) \<Rightarrow> bool" where
  "keeps_geom f \<longleftrightarrow> (\<forall>self a a'. f self a = Inr a' \<longrightarrow> geom_ax a' = geom_ax a)"

definition frame_stmt :: "stmt \<Rightarrow> bool" where
  "frame_stmt st \<longleftrightarrow>
     (\<forall>a b. st a = Inr b \<longrightarrow> core b = core a \<and> geom b = geom a \<and> im b = im a)"

subsection \<open>Inputs of the scenarios\<close>

text \<open>
  The 4 by 4 array whose entry in row \<open>r\<close> and column \<open>c\<close> is \<open>4 r + c\<close>, with the axes
  \<open>0, 1, 2, 3\<close>; the grids \<open>grid_arr m n\<close> of \<open>m\<close> rows and \<open>n\<close> columns with the entry
  \<open>n r + c\<close> and the axes \<open>grid_axis n = 0, ..., n - 1\<close>.
\<close>

definition arr4 :: "real list list" where
  "arr4 = [[0, 1, 2, 3], [4, 5, 6, 7], [8, 9, 10, 11], [12, 13, 14, 15]]"

definition ax4 :: "real list" where
  "ax4 = [0, 1, 2, 3]"

definition grid_axis :: "nat \<Rightarrow> real list" where
  "grid_axis n = map real [0..<n]"

definition grid_arr :: "nat \<Rightarrow> nat \<Rightarrow> real list list" where
  "grid_arr m n = map (\<lambda>r. map (\<lambda>c. real (n * r + c)) [0..<n]) [0..<m]"

section \<open>Properties\<close>

subsection \<open>Option dictionaries\<close>

lemma dict_update_lookup:
  "distinct (map fst u) \<Longrightarrow>
   map_of (dict_update d u) k = (case map_of u k of None \<Rightarrow> map_of d k | Some v \<Rightarrow> Some v)"
  unfolding dict_update_def
proof (induction u arbitrary: d)
  case Nil
  then show ?case by simp
next
  case (Cons e u)
  obtain a b where e: "e = (a, b)" by (cases e)
  from Cons.prems have d: "distinct (map fst u)" and na: "a \<notin> fst ` set u"
    by (auto simp: e)
  from na have nu: "map_of u a = None"
    by (simp add: map_of_eq_None_iff)
  show ?case
    using Cons.IH [OF d, of "AList.update a b d"] nu
    by (auto simp: e update_conv' split: option.splits)
qed

lemma slice_color:
  "distinct (map fst u) \<Longrightarrow>
   dict_getitem (dict_update slice_opts u) ''color'' =
     Inr (case map_of u ''color'' of None \<Rightarrow> Str ''firebrick'' | Some c \<Rightarrow> c)"
  by (simp add: dict_getitem_def dict_update_lookup slice_opts_def split: option.splits)

subsection \<open>The nearest-index lookup returns an index of the axis\<close>

lemma argmin_from_range:
  "argmin_from xs i b bv = b \<or>
   (i \<le> argmin_from xs i b bv \<and> argmin_from xs i b bv < i + length xs)"
proof (induction xs arbitrary: i b bv)
  case Nil
  then show ?case by simp
next
  case (Cons x xs)
  show ?case
    using Cons.IH [of "Suc i" i x] Cons.IH [of "Suc i" b bv]
    by auto
qed

lemma argmin_less: "ds \<noteq> [] \<Longrightarrow> argmin ds < length ds"
proof (cases ds)
  case Nil
  then show "ds \<noteq> [] \<Longrightarrow> ?thesis" by simp
next
  case (Cons x xs)
  then show ?thesis
    using argmin_from_range [of xs 1 0 x] by (auto simp: argmin_def)
qed

lemma argmin_from_correct:
  assumes "b < length pre" and "pre ! b = bv" and "\<forall>k<length pre. bv \<le> pre ! k"
    and "\<forall>k<b. bv < pre ! k"
  shows "argmin_from xs (length pre) b bv < length (pre @ xs) \<and>
         (\<forall>k<length (pre @ xs). (pre @ xs) ! argmin_from xs (length pre) b bv \<le> (pre @ xs) ! k) \<and>
         (\<forall>k<argmin_from xs (length pre) b bv. (pre @ xs) ! argmin_from xs (length pre) b bv < (pre @ xs) ! k)"
  using assms
proof (induction xs arbitrary: pre b bv)
  case Nil
  then show ?case by simp
next
  case (Cons x xs)
  show ?case
  proof (cases "x < bv")
    case True
    have "argmin_from xs (length (pre @ [x])) (length pre) x < length ((pre @ [x]) @ xs) \<and>
         (\<forall>k<length ((pre @ [x]) @ xs). ((pre @ [x]) @ xs) ! argmin_from xs (length (pre @ [x])) (length pre) x \<le> ((pre @ [x]) @ xs) ! k) \<and>
         (\<forall>k<argmin_from xs (length (pre @ [x])) (length pre) x. ((pre @ [x]) @ xs) ! argmin_from xs (length (pre @ [x])) (length pre) x < ((pre @ [x]) @ xs) ! k)"
    proof (rule Cons.IH)
      show "length pre < length (pre @ [x])" by simp
      show "(pre @ [x]) ! length pre = x" by simp
      show "\<forall>k<length (pre @ [x]). x \<le> (pre @ [x]) ! k"
      proof (intro allI impI)
        fix k
        assume k: "k < length (pre @ [x])"
        show "x \<le> (pre @ [x]) ! k"
        proof (cases "k < length pre")
          case True
          with Cons.prems(3) have "bv \<le> pre ! k" by simp
          with \<open>x < bv\<close> True show ?thesis by (simp add: nth_append)
        next
          case False
          with k have "k = length pre" by simp
          then show ?thesis by simp
        qed
      qed
      show "\<forall>k<length pre. x < (pre @ [x]) ! k"
      proof (intro allI impI)
        fix k
        assume k: "k < length pre"
        with Cons.prems(3) have "bv \<le> pre ! k" by simp
        with \<open>x < bv\<close> k show "x < (pre @ [x]) ! k" by (simp add: nth_append)
      qed
    qed
    with True show ?thesis by simp
  next
    case False
    have "argmin_from xs (length (pre @ [x])) b bv < length ((pre @ [x]) @ xs) \<and>
         (\<forall>k<length ((pre @ [x]) @ xs). ((pre @ [x]) @ xs) ! argmin_from xs (length (pre @ [x])) b bv \<le> ((pre @ [x]) @ xs) ! k) \<and>
         (\<forall>k<argmin_from xs (length (pre @ [x])) b bv. ((pre @ [x]) @ xs) ! argmin_from xs (length (pre @ [x])) b bv < ((pre @ [x]) @ xs) ! k)"
    proof (rule Cons.IH)
      show "b < length (pre @ [x])" using Cons.prems(1) by simp
      show "(pre @ [x]) ! b = bv" using Cons.prems(1,2) by (simp add: nth_append)
      show "\<forall>k<length (pre @ [x]). bv \<le> (pre @ [x]) ! k"
        using False Cons.prems(3) by (auto simp: nth_append less_Suc_eq)
      show "\<forall>k<b. bv < (pre @ [x]) ! k"
        using Cons.prems(1,4) by (auto simp: nth_append)
    qed
    with False show ?thesis by simp
  qed
qed

lemma argmin_correct:
  assumes "ds \<noteq> []"
  shows "argmin ds < length ds \<and> (\<forall>k<length ds. ds ! argmin ds \<le> ds ! k) \<and>
         (\<forall>k<argmin ds. ds ! argmin ds < ds ! k)"
proof -
  from assms obtain x xs where ds: "ds = x # xs" by (cases ds) auto
  have "argmin_from xs (length [x]) 0 x < length ([x] @ xs) \<and>
         (\<forall>k<length ([x] @ xs). ([x] @ xs) ! argmin_from xs (length [x]) 0 x \<le> ([x] @ xs) ! k) \<and>
         (\<forall>k<argmin_from xs (length [x]) 0 x. ([x] @ xs) ! argmin_from xs (length [x]) 0 x < ([x] @ xs) ! k)"
    by (rule argmin_from_correct) simp_all
  then show ?thesis by (simp add: ds argmin_def)
qed

lemma idx_from_val_nearest:
  assumes "idx_from_val axis v = Inr i"
  shows "i < length axis \<and> (\<forall>k<length axis. \<bar>axis ! i - v\<bar> \<le> \<bar>axis ! k - v\<bar>) \<and>
         (\<forall>k<i. \<bar>axis ! i - v\<bar> < \<bar>axis ! k - v\<bar>)"
proof -
  define ds where "ds = map (\<lambda>a. \<bar>a - v\<bar>) axis"
  from assms have ne: "axis \<noteq> []" and i: "i = argmin ds"
    by (auto simp: idx_from_val_def ds_def split: if_splits)
  from ne have "ds \<noteq> []" by (simp add: ds_def)
  from argmin_correct [OF this] have a: "i < length ds"
    and b: "\<forall>k<length ds. ds ! i \<le> ds ! k" and c: "\<forall>k<i. ds ! i < ds ! k"
    unfolding i by blast+
  from a have a': "i < length axis" by (simp add: ds_def)
  have "\<bar>axis ! i - v\<bar> \<le> \<bar>axis ! k - v\<bar>" if "k < length axis" for k
    using b that a' by (auto simp: ds_def dest!: spec [where x = k])
  moreover have "\<bar>axis ! i - v\<bar> < \<bar>axis ! k - v\<bar>" if "k < i" for k
    using c that a' by (auto simp: ds_def dest!: spec [where x = k])
  ultimately show ?thesis using a' by blast
qed

lemma idx_from_val_less: "idx_from_val axis v = Inr i \<Longrightarrow> i < length axis"
  using argmin_less [of "map (\<lambda>a. \<bar>a - v\<bar>) axis"]
  by (auto simp: idx_from_val_def split: if_splits)

lemma idx_from_val_Inl: "idx_from_val axis v = Inl e \<Longrightarrow> e = ValueError"
  by (auto simp: idx_from_val_def split: if_splits)

subsection \<open>Sequencing and reductions\<close>

lemma bind_err_Inr_iff: "bind_err m f = Inr y \<longleftrightarrow> (\<exists>x. m = Inr x \<and> f x = Inr y)"
  by (cases m) (simp_all add: bind_err_def)

lemma bind_err_Inl_iff: "bind_err m f = Inl e \<longleftrightarrow> m = Inl e \<or> (\<exists>x. m = Inr x \<and> f x = Inl e)"
  by (cases m) (simp_all add: bind_err_def)

lemma bind_err_simps [simp]: "bind_err (Inl e) f = Inl e" "bind_err (Inr x) f = f x"
  by (simp_all add: bind_err_def)

lemma fold_min_Min: "fold min xs (x::real) = Min (set (x # xs))"
  by (simp only: Min.set_eq_fold)

lemma fold_max_Max: "fold max xs (x::real) = Max (set (x # xs))"
  by (simp only: Max.set_eq_fold)

lemma np_min_Inr_iff: "np_min xs = Inr m \<longleftrightarrow> xs \<noteq> [] \<and> m = Min (set xs)"
proof (cases xs)
  case Nil
  then show ?thesis by (simp add: np_min_def)
next
  case (Cons a list)
  then show ?thesis using fold_min_Min [of list a] by (auto simp: np_min_def)
qed

lemma np_max_Inr_iff: "np_max xs = Inr m \<longleftrightarrow> xs \<noteq> [] \<and> m = Max (set xs)"
proof (cases xs)
  case Nil
  then show ?thesis by (simp add: np_max_def)
next
  case (Cons a list)
  then show ?thesis using fold_max_Max [of list a] by (auto simp: np_max_def)
qed

lemma np_min_Inl_iff: "np_min xs = Inl e \<longleftrightarrow> xs = [] \<and> e = ValueError"
  by (cases xs) (auto simp: np_min_def)

lemma np_max_Inl_iff: "np_max xs = Inl e \<longleftrightarrow> xs = [] \<and> e = ValueError"
  by (cases xs) (auto simp: np_max_def)

subsection \<open>The attributes computed by the constructor\<close>

lemma crop_window_Inr:
  assumes "crop_window h v ext = Inr (e, x0, x1, y0, y1)"
  shows "x0 < length h \<and> x1 < length h \<and> y0 < length v \<and> y1 < length v"
  using assms unfolding crop_window_def
  by (auto simp: bind_err_Inr_iff case_prod_beta dest: idx_from_val_less)

lemma crop_window_Inl: "crop_window h v ext = Inl e \<Longrightarrow> e = ValueError"
  unfolding crop_window_def
  by (auto simp: bind_err_Inl_iff np_min_Inl_iff np_max_Inl_iff case_prod_beta dest: idx_from_val_Inl)

lemma resolve_slice_Inl: "resolve_slice ax sv = Inl e \<Longrightarrow> e = ValueError"
  unfolding resolve_slice_def
  by (auto simp: bind_err_def split: option.splits sum.splits dest: idx_from_val_Inl)

lemma Plot2D_attrs_Inl: "Plot2D_attrs arr h v xl yl zl kw = Inl e \<Longrightarrow> e = ValueError"
  unfolding Plot2D_attrs_def np_amin_def np_amax_def
  by (auto simp: bind_err_Inl_iff np_min_Inl_iff np_max_Inl_iff case_prod_beta dest: crop_window_Inl resolve_slice_Inl)

lemma Plot2D_attrs_Inr:
  assumes "Plot2D_attrs arr h v xl yl zl kw = Inr s"
  shows "\<exists>e x0 x1 y0 y1. crop_window h v (kw_extent kw) = Inr (e, x0, x1, y0, y1) \<and>
     extent s = e \<and>
     data s = slice2 y0 y1 x0 x1 arr \<and> concat (data s) \<noteq> [] \<and>
     h_axis s = slice1 x0 x1 h \<and> v_axis s = slice1 y0 y1 v \<and>
     min_data s = Min (set (concat (data s))) \<and> max_data s = Max (set (concat (data s))) \<and>
     vmin s = kwargs_get (kw_vmin kw) (min_data s) \<and> vmax s = kwargs_get (kw_vmax kw) (max_data s) \<and>
     resolve_slice (v_axis s) (kw_hslice_val kw) = Inr (hslice_idx s) \<and>
     resolve_slice (h_axis s) (kw_vslice_val kw) = Inr (vslice_idx s) \<and>
     hslice_val s = kw_hslice_val kw \<and> vslice_val s = kw_vslice_val kw \<and>
     label s = (xl, yl, zl) \<and> cbar s = kwargs_get (kw_cbar kw) True \<and>
     im s = None \<and> ax0 s = None \<and> axh s = None \<and> axv s = None"
  using assms unfolding Plot2D_attrs_def np_amin_def np_amax_def
  by (auto simp: bind_err_Inr_iff np_min_Inr_iff np_max_Inr_iff case_prod_beta)




subsection \<open>What the statements of draw_fig leave unchanged\<close>

lemma run_Inr_Cons: "run (st # sts) s = Inr p \<longleftrightarrow> (\<exists>s'. st s = Inr s' \<and> run sts s' = Inr p)"
  by (simp add: bind_err_Inr_iff)

lemma run_preserves:
  assumes "run sts s = Inr p"
    and "\<And>st a b. st \<in> set sts \<Longrightarrow> st a = Inr b \<Longrightarrow> f b = f a"
  shows "f p = f s"
  using assms
proof (induction sts arbitrary: s)
  case Nil
  then show ?case by simp
next
  case (Cons st sts)
  from Cons.prems(1) obtain s' where s': "st s = Inr s'" and r: "run sts s' = Inr p"
    by (auto simp: bind_err_Inr_iff)
  have "f p = f s'" using Cons.IH [OF r] Cons.prems(2) by auto
  moreover have "f s' = f s" using Cons.prems(2) [of st s s'] s' by simp
  ultimately show ?case by simp
qed


lemma keeps_geom_stmts:
  "keeps_geom (axhline_stmt i os)" "keeps_geom (axvline_stmt i os)"
  "keeps_geom (annotate_hslice i os)" "keeps_geom (annotate_vslice i os)"
  "keeps_geom (plot_hslice i os)" "keeps_geom (plot_vslice i os)"
  "keeps_geom despine_h" "keeps_geom despine_v" "keeps_geom caption_stmt" "keeps_geom colorbar_stmt"
  by (auto simp: keeps_geom_def axhline_stmt_def axvline_stmt_def annotate_hslice_def annotate_vslice_def
      plot_hslice_def plot_vslice_def despine_h_def despine_v_def caption_stmt_def colorbar_stmt_def
      bind_err_Inr_iff plot_xy_def geom_ax_def split: if_splits option.splits)

lemma frame_on_ax0: "keeps_geom f \<Longrightarrow> frame_stmt (on_ax0 f)"
  by (auto simp: frame_stmt_def on_ax0_def bind_err_Inr_iff core_def geom_def keeps_geom_def split: option.splits)

lemma frame_on_axh: "keeps_geom f \<Longrightarrow> frame_stmt (on_axh f)"
  by (auto simp: frame_stmt_def on_axh_def bind_err_Inr_iff core_def geom_def keeps_geom_def split: option.splits)

lemma frame_on_axv: "keeps_geom f \<Longrightarrow> frame_stmt (on_axv f)"
  by (auto simp: frame_stmt_def on_axv_def bind_err_Inr_iff core_def geom_def keeps_geom_def split: option.splits)

lemma frame_spacing:
  "frame_stmt (\<lambda>s. Inr (s\<lparr>hspace := x\<rparr>))" "frame_stmt (\<lambda>s. Inr (s\<lparr>wspace := y\<rparr>))"
  "frame_stmt (\<lambda>s. Inr (s\<lparr>wspace := y, hspace := x\<rparr>))"
  by (auto simp: frame_stmt_def core_def geom_def)

lemmas frame_stmts = frame_on_ax0 [OF keeps_geom_stmts(1)] frame_on_ax0 [OF keeps_geom_stmts(2)]
  frame_on_ax0 [OF keeps_geom_stmts(3)] frame_on_ax0 [OF keeps_geom_stmts(4)]
  frame_on_axh [OF keeps_geom_stmts(5)] frame_on_axv [OF keeps_geom_stmts(6)]
  frame_on_axh [OF keeps_geom_stmts(7)] frame_on_axv [OF keeps_geom_stmts(8)]
  frame_on_ax0 [OF keeps_geom_stmts(9)] frame_on_ax0 [OF keeps_geom_stmts(10)]
  frame_spacing

lemma run_frame:
  assumes "list_all frame_stmt sts" and "run sts a = Inr b"
  shows "core b = core a \<and> geom b = geom a \<and> im b = im a"
proof -
  have "(\<lambda>s. (core s, geom s, im s)) b = (\<lambda>s. (core s, geom s, im s)) a"
  proof (rule run_preserves [OF assms(2)])
    fix st x y
    assume "st \<in> set sts" and "st x = Inr y"
    with assms(1) show "(core y, geom y, im y) = (core x, geom x, im x)"
      by (auto simp: list_all_iff frame_stmt_def)
  qed
  then show ?thesis by simp
qed

lemma main_panel_frame:
  assumes "main_panel kw a = Inr b"
  shows "core b = core a \<and> geom b = geom a \<and>
    im b = Some \<lparr>im_data = data a, im_extent = extent a, im_norm = norm_attr a,
        im_cmap = kwargs_get (kw_cmap kw) ''viridis'', im_vmin = vmin a, im_vmax = vmax a\<rparr>"
  using assms
  by (auto simp: main_panel_def core_def geom_def geom_ax_def split: option.splits)

lemma core_fields:
  assumes "core b = core a"
  shows "extent b = extent a" "data b = data a" "min_data b = min_data a" "max_data b = max_data a"
    "vmin b = vmin a" "vmax b = vmax a" "h_axis b = h_axis a" "v_axis b = v_axis a"
    "label b = label a" "cbar b = cbar a" "norm_attr b = norm_attr a"
    "hslice_val b = hslice_val a" "vslice_val b = vslice_val a"
    "hslice_idx b = hslice_idx a" "vslice_idx b = vslice_idx a"
    "annot_text b = annot_text a" "figsize b = figsize a"
proof -
  have "extent (core b) = extent (core a)" "data (core b) = data (core a)"
    "min_data (core b) = min_data (core a)" "max_data (core b) = max_data (core a)"
    "vmin (core b) = vmin (core a)" "vmax (core b) = vmax (core a)"
    "h_axis (core b) = h_axis (core a)" "v_axis (core b) = v_axis (core a)"
    "label (core b) = label (core a)" "cbar (core b) = cbar (core a)"
    "norm_attr (core b) = norm_attr (core a)"
    "hslice_val (core b) = hslice_val (core a)" "vslice_val (core b) = vslice_val (core a)"
    "hslice_idx (core b) = hslice_idx (core a)" "vslice_idx (core b) = vslice_idx (core a)"
    "annot_text (core b) = annot_text (core a)" "figsize (core b) = figsize (core a)"
    using assms by simp_all
  then show "extent b = extent a" "data b = data a" "min_data b = min_data a" "max_data b = max_data a"
    "vmin b = vmin a" "vmax b = vmax a" "h_axis b = h_axis a" "v_axis b = v_axis a"
    "label b = label a" "cbar b = cbar a" "norm_attr b = norm_attr a"
    "hslice_val b = hslice_val a" "vslice_val b = vslice_val a"
    "hslice_idx b = hslice_idx a" "vslice_idx b = vslice_idx a"
    "annot_text b = annot_text a" "figsize b = figsize a"
    by (simp_all add: core_def)
qed

lemma branch_frame:
  assumes "list_all frame_stmt sts" and "run (main_panel kw # sts) init = Inr q"
  shows "core q = core init \<and> geom q = geom init \<and>
    im q = Some \<lparr>im_data = data init, im_extent = extent init, im_norm = norm_attr init,
        im_cmap = kwargs_get (kw_cmap kw) ''viridis'', im_vmin = vmin init, im_vmax = vmax init\<rparr>"
proof -
  from assms(2) obtain s1 where m: "main_panel kw init = Inr s1" and r: "run sts s1 = Inr q"
    by (auto simp: bind_err_Inr_iff)
  from run_frame [OF assms(1) r] main_panel_frame [OF m] show ?thesis by simp
qed

lemma draw_tail_frame:
  assumes "draw_tail q = Inr p"
  shows "core p = core q \<and> geom p = geom q \<and> im p = im q"
  using run_frame [OF _ assms [unfolded draw_tail_def]]
  by (simp add: frame_stmts)

lemma draw_main_only_frame:
  assumes "draw_main_only kw s = Inr q"
  shows "core q = core s \<and> im q = Some (drawn_image kw s) \<and>
     geom q = geom (s\<lparr>ax0 := Some (add_subplot \<lparr>nrows = 1, ncols = 1, height_ratios = [1], width_ratios = [1]\<rparr> (0, 0) False False)\<rparr>)"
  using branch_frame [OF _ assms [unfolded draw_main_only_def Let_def]]
  by (simp add: core_def drawn_image_def)

lemma draw_hslice_frame:
  assumes "draw_hslice kw i s = Inr q"
  shows "core q = core s \<and> im q = Some (drawn_image kw s) \<and>
     geom q = geom (s\<lparr>ax0 := Some (add_subplot \<lparr>nrows = 2, ncols = 1, height_ratios = [1, 3], width_ratios = [1]\<rparr> (1, 0) False False),
                 axh := Some (add_subplot \<lparr>nrows = 2, ncols = 1, height_ratios = [1, 3], width_ratios = [1]\<rparr> (0, 0) True False)\<rparr>)"
  using branch_frame [OF _ assms [unfolded draw_hslice_def Let_def]]
  by (simp add: core_def drawn_image_def frame_stmts)

lemma draw_vslice_frame:
  assumes "draw_vslice kw j s = Inr q"
  shows "core q = core s \<and> im q = Some (drawn_image kw s) \<and>
     geom q = geom (s\<lparr>ax0 := Some (add_subplot \<lparr>nrows = 1, ncols = 2, height_ratios = [1], width_ratios = [3, 1]\<rparr> (0, 0) False False),
                 axv := Some (add_subplot \<lparr>nrows = 1, ncols = 2, height_ratios = [1], width_ratios = [3, 1]\<rparr> (0, 1) False True)\<rparr>)"
  using branch_frame [OF _ assms [unfolded draw_vslice_def Let_def]]
  by (simp add: core_def drawn_image_def frame_stmts)

lemma draw_both_frame:
  assumes "draw_both kw i j s = Inr q"
  shows "core q = core s \<and> im q = Some (drawn_image kw s) \<and>
     geom q = geom (s\<lparr>ax0 := Some (add_subplot \<lparr>nrows = 2, ncols = 2, height_ratios = [1, 3], width_ratios = [3, 1]\<rparr> (1, 0) False False),
                 axh := Some (add_subplot \<lparr>nrows = 2, ncols = 2, height_ratios = [1, 3], width_ratios = [3, 1]\<rparr> (0, 0) True False),
                 axv := Some (add_subplot \<lparr>nrows = 2, ncols = 2, height_ratios = [1, 3], width_ratios = [3, 1]\<rparr> (1, 1) False True)\<rparr>)"
  using branch_frame [OF _ assms [unfolded draw_both_def Let_def]]
  by (simp add: core_def drawn_image_def frame_stmts)

subsection \<open>What a successful draw_fig returns\<close>

lemma draw_fig_Inr:
  assumes "draw_fig kw s = Inr p"
  obtains q where "draw_tail q = Inr p"
    and "hslice_idx s = None \<and> vslice_idx s = None \<and> draw_main_only kw s = Inr q
       \<or> (\<exists>i. hslice_idx s = Some i \<and> vslice_idx s = None \<and> draw_hslice kw i s = Inr q)
       \<or> (\<exists>j. hslice_idx s = None \<and> vslice_idx s = Some j \<and> draw_vslice kw j s = Inr q)
       \<or> (\<exists>i j. hslice_idx s = Some i \<and> vslice_idx s = Some j \<and> draw_both kw i j s = Inr q)"
  using assms unfolding draw_fig_def bind_err_Inr_iff
  by (auto split: if_splits)

lemma draw_fig_frame:
  assumes "draw_fig kw s = Inr p"
  shows "core p = core s \<and> im p = Some (drawn_image kw s)"
proof -
  from assms obtain q where t: "draw_tail q = Inr p"
    and b: "hslice_idx s = None \<and> vslice_idx s = None \<and> draw_main_only kw s = Inr q
       \<or> (\<exists>i. hslice_idx s = Some i \<and> vslice_idx s = None \<and> draw_hslice kw i s = Inr q)
       \<or> (\<exists>j. hslice_idx s = None \<and> vslice_idx s = Some j \<and> draw_vslice kw j s = Inr q)
       \<or> (\<exists>i j. hslice_idx s = Some i \<and> vslice_idx s = Some j \<and> draw_both kw i j s = Inr q)"
    by (rule draw_fig_Inr)
  from b have "core q = core s \<and> im q = Some (drawn_image kw s)"
    using draw_main_only_frame draw_hslice_frame draw_vslice_frame draw_both_frame by blast
  with draw_tail_frame [OF t] show ?thesis by simp
qed

lemma layout_of_geom: "geom p = geom q \<Longrightarrow> layout_of p = layout_of q"
  unfolding layout_of_def geom_def geom_ax_def
  by (cases "ax0 p"; cases "ax0 q"; cases "axh p"; cases "axh q"; cases "axv p"; cases "axv q") simp_all

lemma draw_fig_layout:
  assumes "draw_fig kw s = Inr p" and "axh s = None" and "axv s = None"
  shows "layout_of p = Some (layout_table (hslice_idx s \<noteq> None) (vslice_idx s \<noteq> None))"
proof -
  from assms(1) obtain q where t: "draw_tail q = Inr p"
    and b: "hslice_idx s = None \<and> vslice_idx s = None \<and> draw_main_only kw s = Inr q
       \<or> (\<exists>i. hslice_idx s = Some i \<and> vslice_idx s = None \<and> draw_hslice kw i s = Inr q)
       \<or> (\<exists>j. hslice_idx s = None \<and> vslice_idx s = Some j \<and> draw_vslice kw j s = Inr q)
       \<or> (\<exists>i j. hslice_idx s = Some i \<and> vslice_idx s = Some j \<and> draw_both kw i j s = Inr q)"
    by (rule draw_fig_Inr)
  have pq: "layout_of p = layout_of q"
    using draw_tail_frame [OF t] by (intro layout_of_geom) simp
  from b consider
      (none) "hslice_idx s = None" "vslice_idx s = None" "draw_main_only kw s = Inr q"
    | (h) i where "hslice_idx s = Some i" "vslice_idx s = None" "draw_hslice kw i s = Inr q"
    | (v) j where "hslice_idx s = None" "vslice_idx s = Some j" "draw_vslice kw j s = Inr q"
    | (both) i j where "hslice_idx s = Some i" "vslice_idx s = Some j" "draw_both kw i j s = Inr q"
    by auto
  then show ?thesis
  proof cases
    case none
    from draw_main_only_frame [OF none(3)] have
      "layout_of q = layout_of (s\<lparr>ax0 := Some (add_subplot \<lparr>nrows = 1, ncols = 1, height_ratios = [1], width_ratios = [1]\<rparr> (0, 0) False False)\<rparr>)"
      by (intro layout_of_geom) simp
    with none assms(2,3) pq show ?thesis
      by (simp add: layout_of_def add_subplot_def)
  next
    case h
    from draw_hslice_frame [OF h(3)] have
      "layout_of q = layout_of (s\<lparr>ax0 := Some (add_subplot \<lparr>nrows = 2, ncols = 1, height_ratios = [1, 3], width_ratios = [1]\<rparr> (1, 0) False False),
                 axh := Some (add_subplot \<lparr>nrows = 2, ncols = 1, height_ratios = [1, 3], width_ratios = [1]\<rparr> (0, 0) True False)\<rparr>)"
      by (intro layout_of_geom) simp
    with h assms(2,3) pq show ?thesis
      by (simp add: layout_of_def add_subplot_def)
  next
    case v
    from draw_vslice_frame [OF v(3)] have
      "layout_of q = layout_of (s\<lparr>ax0 := Some (add_subplot \<lparr>nrows = 1, ncols = 2, height_ratios = [1], width_ratios = [3, 1]\<rparr> (0, 0) False False),
                 axv := Some (add_subplot \<lparr>nrows = 1, ncols = 2, height_ratios = [1], width_ratios = [3, 1]\<rparr> (0, 1) False True)\<rparr>)"
      by (intro layout_of_geom) simp
    with v assms(2,3) pq show ?thesis
      by (simp add: layout_of_def add_subplot_def)
  next
    case both
    from draw_both_frame [OF both(3)] have
      "layout_of q = layout_of (s\<lparr>ax0 := Some (add_subplot \<lparr>nrows = 2, ncols = 2, height_ratios = [1, 3], width_ratios = [3, 1]\<rparr> (1, 0) False False),
                 axh := Some (add_subplot \<lparr>nrows = 2, ncols = 2, height_ratios = [1, 3], width_ratios = [3, 1]\<rparr> (0, 0) True False),
                 axv := Some (add_subplot \<lparr>nrows = 2, ncols = 2, height_ratios = [1, 3], width_ratios = [3, 1]\<rparr> (1, 1) False True)\<rparr>)"
      by (intro layout_of_geom) simp
    with both assms(2,3) pq show ?thesis
      by (simp add: layout_of_def add_subplot_def)
  qed
qed

lemma Plot2D_init_Inr:
  assumes "Plot2D_init arr h v xl yl zl kw = Inr p"
  obtains s where "Plot2D_attrs arr h v xl yl zl kw = Inr s" and "draw_fig kw s = Inr p"
  using assms unfolding Plot2D_init_def bind_err_Inr_iff by blast

subsection \<open>Inputs that the constructor rejects\<close>

lemma concat_slice2_empty: "concat d = [] \<Longrightarrow> concat (slice2 r0 r1 c0 c1 d) = []"
  by (auto simp: slice2_def slice1_def dest!: in_set_dropD in_set_takeD)

lemma concat_slice2_degenerate: "c1 \<le> c0 \<or> r1 \<le> r0 \<Longrightarrow> concat (slice2 r0 r1 c0 c1 d) = []"
  by (auto simp: slice2_def slice1_def)

lemma Plot2D_attrs_not_empty:
  assumes "Plot2D_attrs arr h v xl yl zl kw = Inr s"
  shows "concat arr \<noteq> [] \<and> h \<noteq> [] \<and> v \<noteq> []"
proof -
  from Plot2D_attrs_Inr [OF assms] obtain e x0 x1 y0 y1 where
    c: "crop_window h v (kw_extent kw) = Inr (e, x0, x1, y0, y1)"
    and d: "data s = slice2 y0 y1 x0 x1 arr" and n: "concat (data s) \<noteq> []"
    by blast
  from crop_window_Inr [OF c] have "h \<noteq> []" "v \<noteq> []" by auto
  moreover from d n concat_slice2_empty [of arr y0 y1 x0 x1] have "concat arr \<noteq> []" by auto
  ultimately show ?thesis by simp
qed

lemma Plot2D_init_Inl_attrs:
  "Plot2D_attrs arr h v xl yl zl kw = Inl e \<Longrightarrow> Plot2D_init arr h v xl yl zl kw = Inl ValueError"
  using Plot2D_attrs_Inl [of arr h v xl yl zl kw e] by (simp add: Plot2D_init_def)

text \<open>
  Claim C3, as the code has it. The claim says that an array whose dimensions do not
  match the axes is rejected. The constructor has no check of the dimensions: the 4 by 4
  scenario array with a horizontal axis of six values is accepted, and the object holds
  three rows of four values beside a horizontal axis of five.
\<close>

theorem mismatched_axis_accepted:
  "length (grid_axis 6) \<noteq> length (arr4 ! 0) \<and>
   map_sum id (\<lambda>p. (data p, h_axis p, v_axis p))
     (Plot2D_init arr4 (grid_axis 6) ax4 [] [] [] no_kwargs) =
   Inr ([[0, 1, 2, 3], [4, 5, 6, 7], [8, 9, 10, 11]], [0, 1, 2, 3, 4], [0, 1, 2])"
  by code_simp

text \<open>
  Claim C3, amended: an input whose array has no entry, or one of whose axes is empty,
  makes the constructor raise ValueError (from the reduction of a zero-size array), and
  no object is returned. Nothing is promised for mismatched dimensions.
\<close>

theorem empty_input_raises:
  assumes "concat arr2d = [] \<or> h = [] \<or> v = []"
  shows "Plot2D_init arr2d h v xl yl zl kw = Inl ValueError"
proof (cases "Plot2D_attrs arr2d h v xl yl zl kw")
  case (Inl e)
  then show ?thesis by (rule Plot2D_init_Inl_attrs)
next
  case (Inr s)
  from Plot2D_attrs_not_empty [OF this] assms show ?thesis by blast
qed

theorem empty_input_raises_witness:
  "concat ([] :: real list list) = [] \<and> Plot2D_init [] ax4 ax4 [] [] [] no_kwargs = Inl ValueError"
  using empty_input_raises [of "[]" ax4 ax4 "[]" "[]" "[]" no_kwargs] by simp

text \<open>
  Claim C7: when the crop window found for the extent is empty on either axis
  (\<open>xmax_idx \<le> xmin_idx\<close> or \<open>ymax_idx \<le> ymin_idx\<close>, which covers the claim's
  \<open>xmin_idx > xmax_idx\<close> and \<open>ymin_idx > ymax_idx\<close>), the constructor raises ValueError
  and returns no object: \<^verbatim>\<open>np.amin\<close> of the empty crop fails before anything is drawn.
\<close>

theorem degenerate_crop_raises:
  assumes "crop_window h v (kw_extent kw) = Inr (e, x0, x1, y0, y1)"
    and "x1 \<le> x0 \<or> y1 \<le> y0"
  shows "Plot2D_init arr2d h v xl yl zl kw = Inl ValueError"
proof (cases "Plot2D_attrs arr2d h v xl yl zl kw")
  case (Inl e)
  then show ?thesis by (rule Plot2D_init_Inl_attrs)
next
  case (Inr s)
  from Plot2D_attrs_Inr [OF this] assms(1) have "concat (slice2 y0 y1 x0 x1 arr2d) \<noteq> []"
    by auto
  with concat_slice2_degenerate [OF assms(2), of arr2d] show ?thesis by blast
qed

theorem degenerate_crop_raises_witness:
  "crop_window ax4 ax4 (Some (2, 1, 0, 3)) = Inr ((2, 1, 0, 3), 2, 1, 0, 3) \<and>
   Plot2D_init arr4 ax4 ax4 [] [] [] (no_kwargs\<lparr>kw_extent := Some (2, 1, 0, 3)\<rparr>) = Inl ValueError"
proof -
  have c: "crop_window ax4 ax4 (kw_extent (no_kwargs\<lparr>kw_extent := Some (2, 1, 0, 3)\<rparr>)) = Inr ((2, 1, 0, 3), 2, 1, 0, 3)"
    by code_simp
  from degenerate_crop_raises [OF c, of arr4 "[]" "[]" "[]"] c show ?thesis
    by (simp add: no_kwargs_def)
qed

subsection \<open>The scenarios of the full extent and of the slice out of range\<close>

text \<open>
  Claim C1 at its scenario: with the 4 by 4 scenario array, the axes \<open>0, 1, 2, 3\<close> and no
  extent, the code keeps rows and columns 0 to 2 only. The stored data is 3 by 3, both
  stored axes are \<open>0, 1, 2\<close>, and the colour bounds are 0 and 10. The claim says the
  stored arrays equal the inputs and the upper bound is 15.
\<close>

theorem scenario_full_extent_crop:
  "map_sum id (\<lambda>p. (data p, h_axis p, v_axis p, vmin p, vmax p))
     (Plot2D_init arr4 ax4 ax4 [] [] [] no_kwargs) =
   Inr ([[0, 1, 2], [4, 5, 6], [8, 9, 10]], [0, 1, 2], [0, 1, 2], 0, 10)"
  by code_simp

text \<open>
  Claim C2 at its scenario: with \<^verbatim>\<open>hslice_val=100\<close> on the axis \<open>0, 1, 2, 3\<close> the slice
  index is resolved on the cropped axis \<open>0, 1, 2\<close> and is 2, and the constructor raises
  IndexError when it places the annotation at \<^verbatim>\<open>v_axis[hslice_idx + 3]\<close>. The claim says
  that the index is 3 and that nothing is raised.
\<close>

theorem scenario_hslice_out_of_range:
  "map_sum id hslice_idx (Plot2D_attrs arr4 ax4 ax4 [] [] [] (no_kwargs\<lparr>kw_hslice_val := Some 100\<rparr>)) = Inr (Some 2) \<and>
   Plot2D_init arr4 ax4 ax4 [] [] [] (no_kwargs\<lparr>kw_hslice_val := Some 100\<rparr>) = Inl IndexError"
  by code_simp

subsection \<open>What a successful construction stores and draws\<close>

lemma Plot2D_init_attrs:
  assumes "Plot2D_init arr h v xl yl zl kw = Inr p"
  obtains s where "Plot2D_attrs arr h v xl yl zl kw = Inr s" and "core p = core s"
    and "im p = Some (drawn_image kw s)"
    and "layout_of p = Some (layout_table (hslice_idx s \<noteq> None) (vslice_idx s \<noteq> None))"
proof -
  from assms obtain s where a: "Plot2D_attrs arr h v xl yl zl kw = Inr s"
    and d: "draw_fig kw s = Inr p"
    by (rule Plot2D_init_Inr)
  from Plot2D_attrs_Inr [OF a] have "axh s = None" "axv s = None" by auto
  with draw_fig_layout [OF d] draw_fig_frame [OF d] a that show thesis by blast
qed

lemma resolve_slice_present:
  "resolve_slice ax sv = Inr r \<Longrightarrow> (r \<noteq> None \<longleftrightarrow> sv \<noteq> None)"
  by (cases sv; cases r) (auto simp: resolve_slice_def bind_err_Inr_iff)




lemma length_slice2_cols:
  assumes "\<forall>r\<in>set d. length r = length ax" and "r \<in> set (slice2 r0 r1 c0 c1 d)"
  shows "length r = length (slice1 c0 c1 ax)"
proof -
  from assms(2) obtain r' where "r' \<in> set d" and "r = slice1 c0 c1 r'"
    by (auto simp: slice2_def slice1_def dest!: in_set_dropD in_set_takeD)
  with assms(1) show ?thesis by (simp add: slice1_def)
qed

subsection \<open>The subscripts of the slice annotations\<close>

text \<open>
  A subscript outside \<open>-n, ..., n - 1\<close> raises IndexError and is the only error of
  \<open>getitem\<close>; the dictionaries of the slice options always hold a colour.
\<close>

lemma getitem_Inl: "getitem xs i = Inl e \<Longrightarrow> e = IndexError"
  by (auto simp: getitem_def split: if_splits)

lemma getitem_out_of_range: "int (length xs) \<le> i \<or> i < - int (length xs) \<Longrightarrow> getitem xs i = Inl IndexError"
  by (auto simp: getitem_def)

lemma getitem_negative:
  "i < 0 \<Longrightarrow> getitem xs i = Inr x \<Longrightarrow> - int (length xs) \<le> i \<and> x = xs ! nat (int (length xs) + i)"
  by (auto simp: getitem_def split: if_splits)

lemma dict_update_keeps_key:
  "map_of d k \<noteq> None \<Longrightarrow> map_of (dict_update d u) k \<noteq> None"
  unfolding dict_update_def
proof (induction u arbitrary: d)
  case Nil
  then show ?case by simp
next
  case (Cons e u)
  obtain a b where e: "e = (a, b)" by (cases e)
  from Cons.prems have "map_of (AList.update a b d) k \<noteq> None"
    by (simp add: update_conv')
  from Cons.IH [OF this] show ?case by (simp add: e)
qed

lemma color_present:
  "\<exists>c. dict_getitem (hslice_opts_of kw) ''color'' = Inr c"
  "\<exists>c. dict_getitem (vslice_opts_of kw) ''color'' = Inr c"
proof -
  have "map_of slice_opts ''color'' \<noteq> None" by (simp add: slice_opts_def)
  from dict_update_keeps_key [OF this] show
    "\<exists>c. dict_getitem (hslice_opts_of kw) ''color'' = Inr c"
    "\<exists>c. dict_getitem (vslice_opts_of kw) ''color'' = Inr c"
    by (auto simp: dict_getitem_def hslice_opts_of_def vslice_opts_of_def split: option.splits)
qed

lemma bind_err_assoc: "bind_err (bind_err m f) g = bind_err m (\<lambda>x. bind_err (f x) g)"
  by (cases m) simp_all

lemma bind_err_Inl_all:
  assumes "\<And>e'. m = Inl e' \<Longrightarrow> e' = e" and "\<And>x. m = Inr x \<Longrightarrow> f x = Inl e"
  shows "bind_err m f = Inl e"
  using assms by (cases m) auto

lemma draw_hslice_index_error:
  assumes "length (v_axis s) \<le> i + 3 \<or> length (h_axis s) < 4"
  shows "draw_hslice kw i s = Inl IndexError"
proof -
  have bad: "getitem (v_axis s) (int i + 3) = Inl IndexError \<or> getitem (h_axis s) 3 = Inl IndexError"
    using assms getitem_out_of_range [of "v_axis s" "int i + 3"] getitem_out_of_range [of "h_axis s" 3]
    by auto
  show ?thesis
    unfolding draw_hslice_def Let_def
    apply (simp add: bind_err_assoc main_panel_def on_ax0_def axhline_stmt_def annotate_hslice_def add_subplot_def)
    apply (intro bind_err_Inl_all)
    using bad apply (auto dest: getitem_Inl)
    done
qed

lemma draw_vslice_index_error:
  assumes "length (v_axis s) < 40 \<or> j + length (h_axis s) < 40"
  shows "draw_vslice kw j s = Inl IndexError"
proof -
  have bad: "getitem (v_axis s) (- 40) = Inl IndexError \<or> getitem (h_axis s) (int j - 40) = Inl IndexError"
    using assms getitem_out_of_range [of "v_axis s" "- 40"] getitem_out_of_range [of "h_axis s" "int j - 40"]
    by auto
  show ?thesis
    unfolding draw_vslice_def Let_def
    apply (simp add: bind_err_assoc main_panel_def on_ax0_def axvline_stmt_def annotate_vslice_def add_subplot_def)
    apply (intro bind_err_Inl_all)
    using bad apply (auto dest: getitem_Inl)
    done
qed

lemma draw_both_index_error:
  assumes "length (v_axis s) \<le> i + 3 \<or> length (h_axis s) < 4
         \<or> length (v_axis s) < 40 \<or> j + length (h_axis s) < 40"
  shows "draw_both kw i j s = Inl IndexError"
proof -
  have bad: "getitem (v_axis s) (int i + 3) = Inl IndexError \<or> getitem (h_axis s) 3 = Inl IndexError
      \<or> getitem (v_axis s) (- 40) = Inl IndexError \<or> getitem (h_axis s) (int j - 40) = Inl IndexError"
    using assms getitem_out_of_range [of "v_axis s" "int i + 3"] getitem_out_of_range [of "h_axis s" 3]
      getitem_out_of_range [of "v_axis s" "- 40"] getitem_out_of_range [of "h_axis s" "int j - 40"]
    by auto
  obtain c where c: "dict_getitem (hslice_opts_of kw) ''color'' = Inr c"
    using color_present(1) by blast
  show ?thesis
    unfolding draw_both_def Let_def
    apply (simp add: bind_err_assoc main_panel_def on_ax0_def axhline_stmt_def axvline_stmt_def
        annotate_hslice_def annotate_vslice_def add_subplot_def c)
    apply (intro bind_err_Inl_all)
    using bad apply (auto dest: getitem_Inl)
    done
qed

lemma draw_fig_index_error:
  assumes "(\<exists>i. hslice_idx s = Some i \<and> (length (v_axis s) \<le> i + 3 \<or> length (h_axis s) < 4))
         \<or> (\<exists>j. vslice_idx s = Some j \<and> (length (v_axis s) < 40 \<or> j + length (h_axis s) < 40))"
  shows "draw_fig kw s = Inl IndexError"
proof -
  have "(if hslice_idx s = None \<and> vslice_idx s = None then draw_main_only kw s
        else if hslice_idx s \<noteq> None \<and> vslice_idx s = None then
          draw_hslice kw (the (hslice_idx s)) s
        else if vslice_idx s \<noteq> None \<and> hslice_idx s = None then
          draw_vslice kw (the (vslice_idx s)) s
        else draw_both kw (the (hslice_idx s)) (the (vslice_idx s)) s) = Inl IndexError"
    using assms
    by (cases "hslice_idx s"; cases "vslice_idx s")
      (auto simp: draw_hslice_index_error draw_vslice_index_error draw_both_index_error)
  then show ?thesis by (simp add: draw_fig_def)
qed

subsection \<open>The annotations of a figure that is drawn\<close>

lemma run_append: "run (xs @ ys) s = bind_err (run xs s) (run ys)"
proof (induction xs arbitrary: s)
  case Nil
  then show ?case by simp
next
  case (Cons st xs)
  then show ?case by (cases "st s") simp_all
qed

lemma keeps_ax0:
  "on_axh f a = Inr b \<Longrightarrow> ax0 b = ax0 a"
  "on_axv g a = Inr b \<Longrightarrow> ax0 b = ax0 a"
  by (auto simp: on_axh_def on_axv_def bind_err_Inr_iff split: option.splits)

lemma tail_keeps_annotations:
  assumes "draw_tail q = Inr p"
  shows "map_option annotations (ax0 p) = map_option annotations (ax0 q)"
proof (rule run_preserves [OF assms [unfolded draw_tail_def]])
  fix st a b
  assume "st \<in> set [on_ax0 caption_stmt, on_ax0 colorbar_stmt]" and "st a = Inr b"
  then show "map_option annotations (ax0 b) = map_option annotations (ax0 a)"
    by (auto simp: on_ax0_def caption_stmt_def colorbar_stmt_def bind_err_Inr_iff
        split: option.splits if_splits)
qed

lemma draw_vslice_annotation:
  assumes "draw_vslice kw j s = Inr q"
  shows "\<exists>v x y c. getitem (h_axis s) (int j) = Inr v \<and> getitem (h_axis s) (int j - 40) = Inr x \<and>
           getitem (v_axis s) (- 40) = Inr y \<and> dict_getitem (vslice_opts_of kw) ''color'' = Inr c \<and>
           map_option annotations (ax0 q) =
             Some [\<lparr>an_value = v, an_xy = (x, y), an_color = c, an_vertical = True\<rparr>]"
proof -
  let ?init = "s\<lparr>ax0 := Some (add_subplot \<lparr>nrows = 1, ncols = 2, height_ratios = [1], width_ratios = [3, 1]\<rparr> (0, 0) False False),
                 axv := Some (add_subplot \<lparr>nrows = 1, ncols = 2, height_ratios = [1], width_ratios = [3, 1]\<rparr> (0, 1) False True)\<rparr>"
  let ?pre = "[main_panel kw, on_ax0 (axvline_stmt j (vslice_opts_of kw)),
               on_ax0 (annotate_vslice j (vslice_opts_of kw))]"
  let ?rest = "[on_axv (plot_vslice j (vslice_opts_of kw)), on_axv despine_v,
                (\<lambda>s. Inr (s\<lparr>wspace := Some 0.03\<rparr>))]"
  from assms have "run (?pre @ ?rest) ?init = Inr q"
    by (simp add: draw_vslice_def Let_def)
  then obtain m where m: "run ?pre ?init = Inr m" and r: "run ?rest m = Inr q"
    unfolding run_append bind_err_Inr_iff by blast
  have "ax0 q = ax0 m"
  proof (rule run_preserves [OF r])
    fix st a b
    assume "st \<in> set ?rest" and "st a = Inr b"
    then show "ax0 b = ax0 a" by (auto dest: keeps_ax0)
  qed
  moreover from m have "\<exists>v x y c. getitem (h_axis s) (int j) = Inr v \<and> getitem (h_axis s) (int j - 40) = Inr x \<and>
           getitem (v_axis s) (- 40) = Inr y \<and> dict_getitem (vslice_opts_of kw) ''color'' = Inr c \<and>
           map_option annotations (ax0 m) =
             Some [\<lparr>an_value = v, an_xy = (x, y), an_color = c, an_vertical = True\<rparr>]"
    apply (simp add: bind_err_assoc main_panel_def on_ax0_def axvline_stmt_def annotate_vslice_def add_subplot_def)
    apply (auto simp: bind_err_Inr_iff)
    done
  ultimately show ?thesis by simp
qed

lemma draw_hslice_annotation:
  assumes "draw_hslice kw i s = Inr q"
  shows "\<exists>v x y c. getitem (h_axis s) 3 = Inr x \<and> getitem (v_axis s) (int i + 3) = Inr y \<and>
           map_option annotations (ax0 q) =
             Some [\<lparr>an_value = v, an_xy = (x, y), an_color = c, an_vertical = False\<rparr>]"
proof -
  let ?init = "s\<lparr>ax0 := Some (add_subplot \<lparr>nrows = 2, ncols = 1, height_ratios = [1, 3], width_ratios = [1]\<rparr> (1, 0) False False),
                 axh := Some (add_subplot \<lparr>nrows = 2, ncols = 1, height_ratios = [1, 3], width_ratios = [1]\<rparr> (0, 0) True False)\<rparr>"
  let ?pre = "[main_panel kw, on_ax0 (axhline_stmt i (hslice_opts_of kw)),
               on_ax0 (annotate_hslice i (hslice_opts_of kw))]"
  let ?rest = "[on_axh (plot_hslice i (hslice_opts_of kw)), on_axh despine_h,
                (\<lambda>s. Inr (s\<lparr>hspace := Some 0.03\<rparr>))]"
  from assms have "run (?pre @ ?rest) ?init = Inr q"
    by (simp add: draw_hslice_def Let_def)
  then obtain m where m: "run ?pre ?init = Inr m" and r: "run ?rest m = Inr q"
    unfolding run_append bind_err_Inr_iff by blast
  have "ax0 q = ax0 m"
  proof (rule run_preserves [OF r])
    fix st a b
    assume "st \<in> set ?rest" and "st a = Inr b"
    then show "ax0 b = ax0 a" by (auto dest: keeps_ax0)
  qed
  moreover from m have "\<exists>v x y c. getitem (h_axis s) 3 = Inr x \<and> getitem (v_axis s) (int i + 3) = Inr y \<and>
           map_option annotations (ax0 m) =
             Some [\<lparr>an_value = v, an_xy = (x, y), an_color = c, an_vertical = False\<rparr>]"
    apply (simp add: bind_err_assoc main_panel_def on_ax0_def axhline_stmt_def annotate_hslice_def add_subplot_def)
    apply (auto simp: bind_err_Inr_iff)
    done
  ultimately show ?thesis by simp
qed

lemma draw_both_annotation:
  assumes "draw_both kw i j s = Inr q"
  shows "\<exists>v x y c v' x' y' c'. getitem (h_axis s) 3 = Inr x \<and> getitem (v_axis s) (int i + 3) = Inr y \<and>
           getitem (h_axis s) (int j - 40) = Inr x' \<and> getitem (v_axis s) (- 40) = Inr y' \<and>
           map_option annotations (ax0 q) =
             Some [\<lparr>an_value = v, an_xy = (x, y), an_color = c, an_vertical = False\<rparr>,
                   \<lparr>an_value = v', an_xy = (x', y'), an_color = c', an_vertical = True\<rparr>]"
proof -
  let ?init = "s\<lparr>ax0 := Some (add_subplot \<lparr>nrows = 2, ncols = 2, height_ratios = [1, 3], width_ratios = [3, 1]\<rparr> (1, 0) False False),
                 axh := Some (add_subplot \<lparr>nrows = 2, ncols = 2, height_ratios = [1, 3], width_ratios = [3, 1]\<rparr> (0, 0) True False),
                 axv := Some (add_subplot \<lparr>nrows = 2, ncols = 2, height_ratios = [1, 3], width_ratios = [3, 1]\<rparr> (1, 1) False True)\<rparr>"
  let ?pre = "[main_panel kw, on_ax0 (axhline_stmt i (hslice_opts_of kw)),
               on_ax0 (axvline_stmt j (vslice_opts_of kw)),
               on_ax0 (annotate_hslice i (hslice_opts_of kw)),
               on_ax0 (annotate_vslice j (vslice_opts_of kw))]"
  let ?rest = "[on_axh (plot_hslice i (hslice_opts_of kw)),
                on_axv (plot_vslice j (vslice_opts_of kw)),
                on_axh despine_h, on_axv despine_v,
                (\<lambda>s. Inr (s\<lparr>wspace := Some 0.03, hspace := Some 0.03\<rparr>))]"
  from assms have "run (?pre @ ?rest) ?init = Inr q"
    by (simp add: draw_both_def Let_def)
  then obtain m where m: "run ?pre ?init = Inr m" and r: "run ?rest m = Inr q"
    unfolding run_append bind_err_Inr_iff by blast
  have "ax0 q = ax0 m"
  proof (rule run_preserves [OF r])
    fix st a b
    assume "st \<in> set ?rest" and "st a = Inr b"
    then show "ax0 b = ax0 a" by (auto dest: keeps_ax0)
  qed
  moreover from m have "\<exists>v x y c v' x' y' c'. getitem (h_axis s) 3 = Inr x \<and> getitem (v_axis s) (int i + 3) = Inr y \<and>
           getitem (h_axis s) (int j - 40) = Inr x' \<and> getitem (v_axis s) (- 40) = Inr y' \<and>
           map_option annotations (ax0 m) =
             Some [\<lparr>an_value = v, an_xy = (x, y), an_color = c, an_vertical = False\<rparr>,
                   \<lparr>an_value = v', an_xy = (x', y'), an_color = c', an_vertical = True\<rparr>]"
    apply (simp add: bind_err_assoc main_panel_def on_ax0_def axhline_stmt_def axvline_stmt_def
        annotate_hslice_def annotate_vslice_def add_subplot_def)
    apply (auto simp: bind_err_Inr_iff)
    done
  ultimately show ?thesis by simp
qed

lemma draw_fig_vannotation:
  assumes "draw_fig kw s = Inr p" and "vslice_idx s = Some j"
  shows "\<exists>v x y c a. getitem (h_axis s) (int j - 40) = Inr x \<and> getitem (v_axis s) (- 40) = Inr y \<and>
           ax0 p = Some a \<and>
           \<lparr>an_value = v, an_xy = (x, y), an_color = c, an_vertical = True\<rparr> \<in> set (annotations a)"
proof -
  from assms(1) obtain q where t: "draw_tail q = Inr p"
    and b: "hslice_idx s = None \<and> vslice_idx s = None \<and> draw_main_only kw s = Inr q
       \<or> (\<exists>i. hslice_idx s = Some i \<and> vslice_idx s = None \<and> draw_hslice kw i s = Inr q)
       \<or> (\<exists>j. hslice_idx s = None \<and> vslice_idx s = Some j \<and> draw_vslice kw j s = Inr q)
       \<or> (\<exists>i j. hslice_idx s = Some i \<and> vslice_idx s = Some j \<and> draw_both kw i j s = Inr q)"
    by (rule draw_fig_Inr)
  from b assms(2) have "draw_vslice kw j s = Inr q \<or> (\<exists>i. draw_both kw i j s = Inr q)"
    by auto
  then have "\<exists>v x y c as. getitem (h_axis s) (int j - 40) = Inr x \<and> getitem (v_axis s) (- 40) = Inr y \<and>
      map_option annotations (ax0 q) = Some as \<and>
      \<lparr>an_value = v, an_xy = (x, y), an_color = c, an_vertical = True\<rparr> \<in> set as"
  proof
    assume "draw_vslice kw j s = Inr q"
    from draw_vslice_annotation [OF this] show ?thesis by fastforce
  next
    assume "\<exists>i. draw_both kw i j s = Inr q"
    then obtain i where "draw_both kw i j s = Inr q" ..
    from draw_both_annotation [OF this] show ?thesis by fastforce
  qed
  then obtain va x y col as where g: "getitem (h_axis s) (int j - 40) = Inr x"
      "getitem (v_axis s) (- 40) = Inr y"
    and as: "map_option annotations (ax0 q) = Some as"
    and an: "\<lparr>an_value = va, an_xy = (x, y), an_color = col, an_vertical = True\<rparr> \<in> set as"
    by blast
  from as tail_keeps_annotations [OF t] obtain a where "ax0 p = Some a" and "annotations a = as"
    by (cases "ax0 p") auto
  with g an show ?thesis by blast
qed

lemma draw_fig_hannotation:
  assumes "draw_fig kw s = Inr p" and "hslice_idx s = Some i"
  shows "\<exists>v x y c a. getitem (h_axis s) 3 = Inr x \<and> getitem (v_axis s) (int i + 3) = Inr y \<and>
           ax0 p = Some a \<and>
           \<lparr>an_value = v, an_xy = (x, y), an_color = c, an_vertical = False\<rparr> \<in> set (annotations a)"
proof -
  from assms(1) obtain q where t: "draw_tail q = Inr p"
    and b: "hslice_idx s = None \<and> vslice_idx s = None \<and> draw_main_only kw s = Inr q
       \<or> (\<exists>i. hslice_idx s = Some i \<and> vslice_idx s = None \<and> draw_hslice kw i s = Inr q)
       \<or> (\<exists>j. hslice_idx s = None \<and> vslice_idx s = Some j \<and> draw_vslice kw j s = Inr q)
       \<or> (\<exists>i j. hslice_idx s = Some i \<and> vslice_idx s = Some j \<and> draw_both kw i j s = Inr q)"
    by (rule draw_fig_Inr)
  from b assms(2) have "draw_hslice kw i s = Inr q \<or> (\<exists>j. draw_both kw i j s = Inr q)"
    by auto
  then have "\<exists>v x y c as. getitem (h_axis s) 3 = Inr x \<and> getitem (v_axis s) (int i + 3) = Inr y \<and>
      map_option annotations (ax0 q) = Some as \<and>
      \<lparr>an_value = v, an_xy = (x, y), an_color = c, an_vertical = False\<rparr> \<in> set as"
  proof
    assume "draw_hslice kw i s = Inr q"
    from draw_hslice_annotation [OF this] show ?thesis by fastforce
  next
    assume "\<exists>j. draw_both kw i j s = Inr q"
    then obtain j where "draw_both kw i j s = Inr q" ..
    from draw_both_annotation [OF this] show ?thesis by fastforce
  qed
  then obtain va x y col as where g: "getitem (h_axis s) 3 = Inr x"
      "getitem (v_axis s) (int i + 3) = Inr y"
    and as: "map_option annotations (ax0 q) = Some as"
    and an: "\<lparr>an_value = va, an_xy = (x, y), an_color = col, an_vertical = False\<rparr> \<in> set as"
    by blast
  from as tail_keeps_annotations [OF t] obtain a where "ax0 p = Some a" and "annotations a = as"
    by (cases "ax0 p") auto
  with g an show ?thesis by blast
qed

lemma getitem_offset:
  assumes "getitem xs (int j - 40) = Inr x"
  shows "40 \<le> j + length xs \<and> x = xs ! (if j < 40 then j + length xs - 40 else j - 40)"
proof (cases "j < 40")
  case True
  then have "int j - 40 < 0" by simp
  from getitem_negative [OF this assms]
  have r: "- int (length xs) \<le> int j - 40" and x: "x = xs ! nat (int (length xs) + (int j - 40))"
    by simp_all
  from r have "nat (int (length xs) + (int j - 40)) = j + length xs - 40" by arith
  with r x True show ?thesis by simp
next
  case False
  with assms show ?thesis
    by (auto simp: getitem_def nat_diff_distrib' split: if_splits)
qed

lemma getitem_from_end:
  assumes "getitem xs (- 40) = Inr y"
  shows "40 \<le> length xs \<and> y = xs ! (length xs - 40)"
proof -
  from getitem_negative [OF _ assms]
  have r: "- int (length xs) \<le> - 40" and y: "y = xs ! nat (int (length xs) + (- 40))"
    by simp_all
  from r have "nat (int (length xs) + (- 40)) = length xs - 40" by arith
  with r y show ?thesis by simp
qed

lemma getitem_nat:
  assumes "getitem xs (int k) = Inr x"
  shows "k < length xs \<and> x = xs ! k"
  using assms by (auto simp: getitem_def split: if_splits)

subsection \<open>When draw_fig returns\<close>

lemma getitem_in_range:
  "- int (length xs) \<le> i \<Longrightarrow> i < int (length xs) \<Longrightarrow> \<exists>x. getitem xs i = Inr x"
  by (auto simp: getitem_def)

lemma draw_tail_succeeds:
  assumes "ax0 q \<noteq> None" and "im q \<noteq> None"
  shows "\<exists>p. draw_tail q = Inr p"
  using assms
  by (auto simp: draw_tail_def on_ax0_def caption_stmt_def colorbar_stmt_def)

lemma draw_main_only_succeeds: "\<exists>q. draw_main_only kw s = Inr q \<and> ax0 q \<noteq> None \<and> im q \<noteq> None"
  by (simp add: draw_main_only_def Let_def main_panel_def)

lemma draw_hslice_succeeds:
  assumes "i + 3 < length (v_axis s)" and "4 \<le> length (h_axis s)" and "i < length (data s)"
    and "length (data s ! i) = length (h_axis s)"
  shows "\<exists>q. draw_hslice kw i s = Inr q \<and> ax0 q \<noteq> None \<and> im q \<noteq> None"
proof -
  obtain c where c: "dict_getitem (hslice_opts_of kw) ''color'' = Inr c"
    using color_present(1) by blast
  obtain y where y: "getitem (v_axis s) (int i) = Inr y"
    using getitem_in_range [of "v_axis s" "int i"] assms(1) by auto
  obtain x where x: "getitem (h_axis s) 3 = Inr x"
    using getitem_in_range [of "h_axis s" 3] assms(2) by auto
  obtain y3 where y3: "getitem (v_axis s) (int i + 3) = Inr y3"
    using getitem_in_range [of "v_axis s" "int i + 3"] assms(1) by auto
  show ?thesis
    using assms(3,4)
    by (simp add: draw_hslice_def Let_def bind_err_assoc main_panel_def on_ax0_def on_axh_def
        axhline_stmt_def annotate_hslice_def plot_hslice_def despine_h_def add_subplot_def
        getrow_def plot_xy_def c y x y3)
qed

lemma draw_vslice_succeeds:
  assumes "j < length (h_axis s)" and "40 \<le> length (v_axis s)" and "40 \<le> j + length (h_axis s)"
    and "\<forall>r\<in>set (data s). j < length r" and "length (data s) = length (v_axis s)"
  shows "\<exists>q. draw_vslice kw j s = Inr q \<and> ax0 q \<noteq> None \<and> im q \<noteq> None"
proof -
  obtain c where c: "dict_getitem (vslice_opts_of kw) ''color'' = Inr c"
    using color_present(2) by blast
  obtain x where x: "getitem (h_axis s) (int j) = Inr x"
    using getitem_in_range [of "h_axis s" "int j"] assms(1) by auto
  obtain x40 where x40: "getitem (h_axis s) (int j - 40) = Inr x40"
    using getitem_in_range [of "h_axis s" "int j - 40"] assms(1,3) by auto
  obtain y40 where y40: "getitem (v_axis s) (- 40) = Inr y40"
    using getitem_in_range [of "v_axis s" "- 40"] assms(2) by auto
  show ?thesis
    using assms(4,5)
    by (simp add: draw_vslice_def Let_def bind_err_assoc main_panel_def on_ax0_def on_axv_def
        axvline_stmt_def annotate_vslice_def plot_vslice_def despine_v_def add_subplot_def
        getcol_def list_all_iff plot_xy_def c x x40 y40)
qed

lemma draw_both_succeeds:
  assumes "i + 3 < length (v_axis s)" and "4 \<le> length (h_axis s)" and "i < length (data s)"
    and "length (data s ! i) = length (h_axis s)"
    and "j < length (h_axis s)" and "40 \<le> length (v_axis s)" and "40 \<le> j + length (h_axis s)"
    and "\<forall>r\<in>set (data s). j < length r" and "length (data s) = length (v_axis s)"
  shows "\<exists>q. draw_both kw i j s = Inr q \<and> ax0 q \<noteq> None \<and> im q \<noteq> None"
proof -
  obtain c where c: "dict_getitem (hslice_opts_of kw) ''color'' = Inr c"
    using color_present(1) by blast
  obtain y where y: "getitem (v_axis s) (int i) = Inr y"
    using getitem_in_range [of "v_axis s" "int i"] assms(1) by auto
  obtain x3 where x3: "getitem (h_axis s) 3 = Inr x3"
    using getitem_in_range [of "h_axis s" 3] assms(2) by auto
  obtain y3 where y3: "getitem (v_axis s) (int i + 3) = Inr y3"
    using getitem_in_range [of "v_axis s" "int i + 3"] assms(1) by auto
  obtain c' where c': "dict_getitem (vslice_opts_of kw) ''color'' = Inr c'"
    using color_present(2) by blast
  obtain x where x: "getitem (h_axis s) (int j) = Inr x"
    using getitem_in_range [of "h_axis s" "int j"] assms(5) by auto
  obtain x40 where x40: "getitem (h_axis s) (int j - 40) = Inr x40"
    using getitem_in_range [of "h_axis s" "int j - 40"] assms(5,7) by auto
  obtain y40 where y40: "getitem (v_axis s) (- 40) = Inr y40"
    using getitem_in_range [of "v_axis s" "- 40"] assms(6) by auto
  show ?thesis
    using assms(3,4,8,9)
    by (simp add: draw_both_def Let_def bind_err_assoc main_panel_def on_ax0_def on_axh_def on_axv_def
        axhline_stmt_def axvline_stmt_def annotate_hslice_def annotate_vslice_def
        plot_hslice_def plot_vslice_def despine_h_def despine_v_def add_subplot_def
        getrow_def getcol_def list_all_iff plot_xy_def c c' y x3 y3 x x40 y40)
qed

lemma draw_fig_succeeds:
  assumes "\<And>i. hslice_idx s = Some i \<Longrightarrow> i + 3 < length (v_axis s) \<and> 4 \<le> length (h_axis s) \<and>
             i < length (data s) \<and> length (data s ! i) = length (h_axis s)"
    and "\<And>j. vslice_idx s = Some j \<Longrightarrow> j < length (h_axis s) \<and> 40 \<le> length (v_axis s) \<and>
             40 \<le> j + length (h_axis s) \<and> (\<forall>r\<in>set (data s). j < length r) \<and>
             length (data s) = length (v_axis s)"
  shows "\<exists>p. draw_fig kw s = Inr p"
proof -
  have "\<exists>q. (if hslice_idx s = None \<and> vslice_idx s = None then draw_main_only kw s
        else if hslice_idx s \<noteq> None \<and> vslice_idx s = None then
          draw_hslice kw (the (hslice_idx s)) s
        else if vslice_idx s \<noteq> None \<and> hslice_idx s = None then
          draw_vslice kw (the (vslice_idx s)) s
        else draw_both kw (the (hslice_idx s)) (the (vslice_idx s)) s) = Inr q
        \<and> ax0 q \<noteq> None \<and> im q \<noteq> None"
  proof (cases "hslice_idx s")
    case None
    note h = this
    show ?thesis
    proof (cases "vslice_idx s")
      case None
      with h draw_main_only_succeeds [of kw s] show ?thesis by simp
    next
      case (Some j)
      with h assms(2) [OF Some] draw_vslice_succeeds [of j s kw] show ?thesis by simp
    qed
  next
    case (Some i)
    note h = this
    show ?thesis
    proof (cases "vslice_idx s")
      case None
      with h assms(1) [OF h] draw_hslice_succeeds [of i s kw] show ?thesis by simp
    next
      case (Some j)
      with h assms(1) [OF h] assms(2) [OF Some] draw_both_succeeds [of i s j kw] show ?thesis by simp
    qed
  qed
  then obtain q where q: "(if hslice_idx s = None \<and> vslice_idx s = None then draw_main_only kw s
        else if hslice_idx s \<noteq> None \<and> vslice_idx s = None then
          draw_hslice kw (the (hslice_idx s)) s
        else if vslice_idx s \<noteq> None \<and> hslice_idx s = None then
          draw_vslice kw (the (vslice_idx s)) s
        else draw_both kw (the (hslice_idx s)) (the (vslice_idx s)) s) = Inr q"
    and qa: "ax0 q \<noteq> None" and qi: "im q \<noteq> None"
    by blast
  from draw_tail_succeeds [OF qa qi] q show ?thesis
    by (simp add: draw_fig_def)
qed

subsection \<open>The constructor on the grids\<close>

text \<open>
  On the axes \<open>0, ..., n\<close> and \<open>0, ..., m\<close> the default extent is found at the indices
  \<open>0\<close> and \<open>n\<close>, \<open>0\<close> and \<open>m\<close>, and the half-open crop keeps the axes \<open>0, ..., n - 1\<close> and
  \<open>0, ..., m - 1\<close>.
\<close>

lemma length_grid_axis: "length (grid_axis n) = n"
  by (simp add: grid_axis_def)

lemma nth_grid_axis: "k < n \<Longrightarrow> grid_axis n ! k = real k"
  by (simp add: grid_axis_def)

lemma slice1_grid_axis: "slice1 0 n (grid_axis (Suc n)) = grid_axis n"
  by (simp add: slice1_def grid_axis_def take_map del: upt_Suc)

lemma idx_from_val_grid:
  assumes "k < n"
  shows "idx_from_val (grid_axis n) (real k) = Inr k"
proof -
  from assms have "grid_axis n \<noteq> []" by (auto simp: grid_axis_def)
  then obtain i where i: "idx_from_val (grid_axis n) (real k) = Inr i"
    by (simp add: idx_from_val_def)
  from idx_from_val_nearest [OF i] have "i < n"
    and "\<forall>k'<n. \<bar>grid_axis n ! i - real k\<bar> \<le> \<bar>grid_axis n ! k' - real k\<bar>"
    by (simp_all add: length_grid_axis)
  with assms have "\<bar>real i - real k\<bar> \<le> \<bar>real k - real k\<bar>"
    by (auto simp: nth_grid_axis dest!: spec [where x = k])
  then have "i = k" by simp
  with i show ?thesis by simp
qed

lemma np_min_grid: "np_min (grid_axis (Suc n)) = Inr 0"
proof -
  have "Min (set (grid_axis (Suc n))) = 0"
    by (rule Min_eqI) (auto simp: grid_axis_def)
  then show ?thesis by (simp add: np_min_Inr_iff grid_axis_def)
qed

lemma np_max_grid: "np_max (grid_axis (Suc n)) = Inr (real n)"
proof -
  have "Max (set (grid_axis (Suc n))) = real n"
    by (rule Max_eqI) (auto simp: grid_axis_def)
  then show ?thesis by (simp add: np_max_Inr_iff grid_axis_def)
qed

lemma crop_window_grid:
  "crop_window (grid_axis (Suc n)) (grid_axis (Suc m)) None =
     Inr ((0, real n, 0, real m), 0, n, 0, m)"
proof -
  have "idx_from_val (grid_axis (Suc n)) 0 = Inr 0" "idx_from_val (grid_axis (Suc m)) 0 = Inr 0"
    using idx_from_val_grid [of 0 "Suc n"] idx_from_val_grid [of 0 "Suc m"] by simp_all
  moreover have "idx_from_val (grid_axis (Suc n)) (real n) = Inr n"
    "idx_from_val (grid_axis (Suc m)) (real m) = Inr m"
    by (rule idx_from_val_grid, simp)+
  ultimately show ?thesis
    by (simp add: crop_window_def np_min_grid np_max_grid kwargs_get_def)
qed

lemma grid_arr_rows: "\<forall>r\<in>set (grid_arr m n). length r = length (grid_axis n)"
  by (auto simp: grid_arr_def grid_axis_def)

lemma np_amin_succeeds: "concat d \<noteq> [] \<Longrightarrow> \<exists>mn. np_amin d = Inr mn"
  by (simp add: np_amin_def np_min_Inr_iff)

lemma np_amax_succeeds: "concat d \<noteq> [] \<Longrightarrow> \<exists>mx. np_amax d = Inr mx"
  by (simp add: np_amax_def np_max_Inr_iff)

lemma grid_crop_rows: "length (slice2 0 m 0 n (grid_arr (Suc m) (Suc n))) = m"
  by (simp add: slice2_def slice1_def grid_arr_def)

lemma grid_crop_cols:
  assumes "r \<in> set (slice2 0 m 0 n (grid_arr (Suc m) (Suc n)))"
  shows "length r = n"
  using length_slice2_cols [OF grid_arr_rows assms] by (simp add: slice1_grid_axis length_grid_axis)

lemma grid_crop_not_empty:
  assumes "0 < m" and "0 < n"
  shows "concat (slice2 0 m 0 n (grid_arr (Suc m) (Suc n))) \<noteq> []"
proof -
  let ?d = "slice2 0 m 0 n (grid_arr (Suc m) (Suc n))"
  from grid_crop_rows [of m n] assms(1) obtain r where r: "r \<in> set ?d"
    by (cases ?d) auto
  from grid_crop_cols [OF r] assms(2) have "r \<noteq> []" by auto
  with r show ?thesis by auto
qed

lemma Plot2D_attrs_grid:
  assumes "0 < m" and "0 < n"
    and "kw_extent kw = None"
    and "kw_hslice_val kw = map_option real hs" and "kw_vslice_val kw = map_option real vs"
    and "\<And>i. hs = Some i \<Longrightarrow> i < m" and "\<And>j. vs = Some j \<Longrightarrow> j < n"
  shows "\<exists>s. Plot2D_attrs (grid_arr (Suc m) (Suc n)) (grid_axis (Suc n)) (grid_axis (Suc m)) xl yl zl kw = Inr s \<and>
           h_axis s = grid_axis n \<and> v_axis s = grid_axis m \<and>
           hslice_idx s = hs \<and> vslice_idx s = vs \<and>
           data s = slice2 0 m 0 n (grid_arr (Suc m) (Suc n))"
proof -
  from grid_crop_not_empty [OF assms(1,2)]
  obtain mn mx where mn: "np_amin (slice2 0 m 0 n (grid_arr (Suc m) (Suc n))) = Inr mn"
    and mx: "np_amax (slice2 0 m 0 n (grid_arr (Suc m) (Suc n))) = Inr mx"
    using np_amin_succeeds np_amax_succeeds by blast
  have h: "resolve_slice (grid_axis m) (map_option real hs) = Inr hs"
    using assms(6) by (cases hs) (simp_all add: resolve_slice_def idx_from_val_grid)
  have v: "resolve_slice (grid_axis n) (map_option real vs) = Inr vs"
    using assms(7) by (cases vs) (simp_all add: resolve_slice_def idx_from_val_grid)
  show ?thesis
    by (simp add: Plot2D_attrs_def assms(3,4,5) crop_window_grid mn mx h v slice1_grid_axis)
qed

lemma Plot2D_init_grid:
  assumes "0 < m" and "0 < n"
    and "kw_extent kw = None"
    and "kw_hslice_val kw = map_option real hs" and "kw_vslice_val kw = map_option real vs"
    and hs: "\<And>i. hs = Some i \<Longrightarrow> i + 3 < m \<and> 4 \<le> n"
    and vs: "\<And>j. vs = Some j \<Longrightarrow> j < n \<and> 40 \<le> m \<and> 40 \<le> j + n"
  shows "\<exists>s p. Plot2D_attrs (grid_arr (Suc m) (Suc n)) (grid_axis (Suc n)) (grid_axis (Suc m)) xl yl zl kw = Inr s \<and>
           Plot2D_init (grid_arr (Suc m) (Suc n)) (grid_axis (Suc n)) (grid_axis (Suc m)) xl yl zl kw = Inr p \<and>
           h_axis s = grid_axis n \<and> v_axis s = grid_axis m \<and>
           hslice_idx s = hs \<and> vslice_idx s = vs"
proof -
  have "i < m" if "hs = Some i" for i using hs [OF that] by simp
  moreover have "j < n" if "vs = Some j" for j using vs [OF that] by simp
  ultimately obtain s where
    s: "Plot2D_attrs (grid_arr (Suc m) (Suc n)) (grid_axis (Suc n)) (grid_axis (Suc m)) xl yl zl kw = Inr s"
    and ax: "h_axis s = grid_axis n" "v_axis s = grid_axis m"
    and ix: "hslice_idx s = hs" "vslice_idx s = vs"
    and d: "data s = slice2 0 m 0 n (grid_arr (Suc m) (Suc n))"
    using Plot2D_attrs_grid [OF assms(1-5), of xl yl zl] by blast
  have rows: "length (data s) = m"
    by (simp add: d grid_crop_rows)
  have cols: "length r = n" if "r \<in> set (data s)" for r
    using that by (simp add: d grid_crop_cols)
  have "\<exists>p. draw_fig kw s = Inr p"
  proof (rule draw_fig_succeeds)
    fix i assume "hslice_idx s = Some i"
    with ix have i: "hs = Some i" by simp
    from hs [OF i] have "i < length (data s)" by (simp add: rows)
    then have "data s ! i \<in> set (data s)" by simp
    from cols [OF this] hs [OF i]
    show "i + 3 < length (v_axis s) \<and> 4 \<le> length (h_axis s) \<and>
          i < length (data s) \<and> length (data s ! i) = length (h_axis s)"
      by (simp add: ax rows length_grid_axis)
  next
    fix j assume "vslice_idx s = Some j"
    with ix have j: "vs = Some j" by simp
    from vs [OF j] cols
    show "j < length (h_axis s) \<and> 40 \<le> length (v_axis s) \<and> 40 \<le> j + length (h_axis s) \<and>
          (\<forall>r\<in>set (data s). j < length r) \<and> length (data s) = length (v_axis s)"
      by (simp add: ax rows length_grid_axis)
  qed
  with s ax ix show ?thesis by (auto simp: Plot2D_init_def)
qed

text \<open>
  Claim C4: in every object that the constructor returns, the stored data is the crop
  window of the caller's array, \<open>vmin\<close> is the caller's \<^verbatim>\<open>vmin\<close> when one is passed and
  otherwise the minimum of that window, and \<open>vmax\<close> is the caller's \<^verbatim>\<open>vmax\<close> when one is
  passed and otherwise the maximum of that window; each of the two options acts alone.
  The window is not empty, so the minimum and the maximum exist; they are those of the
  crop, not of the whole array. The image is drawn with these two bounds.
\<close>

theorem color_bounds:
  assumes "Plot2D_init arr2d h v xl yl zl kw = Inr p"
  shows "\<exists>e x0 x1 y0 y1. crop_window h v (kw_extent kw) = Inr (e, x0, x1, y0, y1) \<and>
           data p = slice2 y0 y1 x0 x1 arr2d \<and>
           concat (slice2 y0 y1 x0 x1 arr2d) \<noteq> [] \<and>
           vmin p = (case kw_vmin kw of
                       None \<Rightarrow> Min (set (concat (slice2 y0 y1 x0 x1 arr2d))) | Some a \<Rightarrow> a) \<and>
           vmax p = (case kw_vmax kw of
                       None \<Rightarrow> Max (set (concat (slice2 y0 y1 x0 x1 arr2d))) | Some b \<Rightarrow> b) \<and>
           map_option im_vmin (im p) = Some (vmin p) \<and>
           map_option im_vmax (im p) = Some (vmax p)"
proof -
  from assms obtain s where a: "Plot2D_attrs arr2d h v xl yl zl kw = Inr s"
    and c: "core p = core s" and i: "im p = Some (drawn_image kw s)"
    by (rule Plot2D_init_attrs)
  from Plot2D_attrs_Inr [OF a] obtain e x0 x1 y0 y1 where
    w: "crop_window h v (kw_extent kw) = Inr (e, x0, x1, y0, y1)"
    and d: "data s = slice2 y0 y1 x0 x1 arr2d"
    and n: "concat (data s) \<noteq> []"
    and m: "min_data s = Min (set (concat (data s)))" "max_data s = Max (set (concat (data s)))"
    and k: "vmin s = kwargs_get (kw_vmin kw) (min_data s)" "vmax s = kwargs_get (kw_vmax kw) (max_data s)"
    by blast
  from n m k core_fields(2,5,6) [OF c] i have
    "crop_window h v (kw_extent kw) = Inr (e, x0, x1, y0, y1) \<and>
           data p = slice2 y0 y1 x0 x1 arr2d \<and>
           concat (slice2 y0 y1 x0 x1 arr2d) \<noteq> [] \<and>
           vmin p = (case kw_vmin kw of
                       None \<Rightarrow> Min (set (concat (slice2 y0 y1 x0 x1 arr2d))) | Some a \<Rightarrow> a) \<and>
           vmax p = (case kw_vmax kw of
                       None \<Rightarrow> Max (set (concat (slice2 y0 y1 x0 x1 arr2d))) | Some b \<Rightarrow> b) \<and>
           map_option im_vmin (im p) = Some (vmin p) \<and>
           map_option im_vmax (im p) = Some (vmax p)"
    unfolding d
    by (simp add: w kwargs_get_def drawn_image_def split: option.splits)
  then show ?thesis by blast
qed

theorem color_bounds_witness:
  "(\<exists>p. Plot2D_init arr4 ax4 ax4 [] [] [] (no_kwargs\<lparr>kw_vmin := Some 5\<rparr>) = Inr p \<and>
        vmin p = 5 \<and> vmax p = Max (set (concat (slice2 0 3 0 3 arr4))) \<and> vmax p = 10 \<and>
        map_option im_vmin (im p) = Some 5 \<and> map_option im_vmax (im p) = Some 10) \<and>
   Max (set (concat arr4)) = 15"
proof -
  let ?kw = "no_kwargs\<lparr>kw_vmin := Some 5\<rparr>"
  have e: "map_sum id vmax (Plot2D_init arr4 ax4 ax4 [] [] [] ?kw) = Inr 10"
    by code_simp
  then obtain p where p: "Plot2D_init arr4 ax4 ax4 [] [] [] ?kw = Inr p"
    by (cases "Plot2D_init arr4 ax4 ax4 [] [] [] ?kw") auto
  have w: "crop_window ax4 ax4 None = Inr ((0, 3, 0, 3), 0, 3, 0, 3)"
    by code_simp
  have u: "Max (set (concat arr4)) = 15"
    by (simp add: arr4_def)
  from color_bounds [OF p] e p w u show ?thesis
    by (auto simp: no_kwargs_def)
qed

text \<open>
  Claim C5: the figure of every object that the constructor returns has exactly the
  layout that the table of section 4.5 assigns to the presence of the horizontal and of
  the vertical slice index, and an index is present exactly when its coordinate was
  passed. \<open>layout_of\<close> is a function, so the four layouts exclude one another, and
  \<open>layout_table\<close> is defined on all four combinations of the two flags.
\<close>

theorem layout_exactly_one:
  assumes "Plot2D_init arr2d h v xl yl zl kw = Inr p"
  shows "layout_of p = Some (layout_table (hslice_idx p \<noteq> None) (vslice_idx p \<noteq> None)) \<and>
         (hslice_idx p \<noteq> None \<longleftrightarrow> kw_hslice_val kw \<noteq> None) \<and>
         (vslice_idx p \<noteq> None \<longleftrightarrow> kw_vslice_val kw \<noteq> None)"
proof -
  from assms obtain s where a: "Plot2D_attrs arr2d h v xl yl zl kw = Inr s"
    and c: "core p = core s"
    and l: "layout_of p = Some (layout_table (hslice_idx s \<noteq> None) (vslice_idx s \<noteq> None))"
    by (rule Plot2D_init_attrs)
  from Plot2D_attrs_Inr [OF a] have
    "resolve_slice (v_axis s) (kw_hslice_val kw) = Inr (hslice_idx s)"
    "resolve_slice (h_axis s) (kw_vslice_val kw) = Inr (vslice_idx s)"
    by auto
  then have "(hslice_idx s \<noteq> None \<longleftrightarrow> kw_hslice_val kw \<noteq> None) \<and>
             (vslice_idx s \<noteq> None \<longleftrightarrow> kw_vslice_val kw \<noteq> None)"
    using resolve_slice_present by blast
  with l core_fields(14,15) [OF c] show ?thesis by simp
qed

theorem layout_exactly_one_witness:
  "(\<exists>p. Plot2D_init arr4 ax4 ax4 [] [] [] no_kwargs = Inr p \<and> layout_of p = Some Main_only) \<and>
   (\<exists>p. Plot2D_init (grid_arr 5 5) (grid_axis 5) (grid_axis 5) [] [] [] (no_kwargs\<lparr>kw_hslice_val := Some 0\<rparr>) = Inr p \<and>
        layout_of p = Some Main_hslice) \<and>
   (\<exists>p. Plot2D_init (grid_arr 41 41) (grid_axis 41) (grid_axis 41) [] [] []
          (no_kwargs\<lparr>kw_vslice_val := Some 7\<rparr>) = Inr p \<and>
        layout_of p = Some Main_vslice) \<and>
   (\<exists>p. Plot2D_init (grid_arr 41 41) (grid_axis 41) (grid_axis 41) [] [] []
          (no_kwargs\<lparr>kw_hslice_val := Some 2, kw_vslice_val := Some 7\<rparr>) = Inr p \<and>
        layout_of p = Some Main_both)"
proof -
  have "\<not> isl (Plot2D_init arr4 ax4 ax4 [] [] [] no_kwargs)"
    by code_simp
  then obtain p where p: "Plot2D_init arr4 ax4 ax4 [] [] [] no_kwargs = Inr p"
    by (cases "Plot2D_init arr4 ax4 ax4 [] [] [] no_kwargs") auto
  have "\<not> isl (Plot2D_init (grid_arr 5 5) (grid_axis 5) (grid_axis 5) [] [] [] (no_kwargs\<lparr>kw_hslice_val := Some 0\<rparr>))"
    by code_simp
  then obtain q where q: "Plot2D_init (grid_arr 5 5) (grid_axis 5) (grid_axis 5) [] [] [] (no_kwargs\<lparr>kw_hslice_val := Some 0\<rparr>) = Inr q"
    by (cases "Plot2D_init (grid_arr 5 5) (grid_axis 5) (grid_axis 5) [] [] [] (no_kwargs\<lparr>kw_hslice_val := Some 0\<rparr>)") auto
  have "\<exists>r. Plot2D_init (grid_arr 41 41) (grid_axis 41) (grid_axis 41) [] [] []
          (no_kwargs\<lparr>kw_vslice_val := Some 7\<rparr>) = Inr r"
    using Plot2D_init_grid [of 40 40 "no_kwargs\<lparr>kw_vslice_val := Some 7\<rparr>" None "Some 7" "[]" "[]" "[]"]
    by (auto simp: no_kwargs_def)
  then obtain r where r: "Plot2D_init (grid_arr 41 41) (grid_axis 41) (grid_axis 41) [] [] []
          (no_kwargs\<lparr>kw_vslice_val := Some 7\<rparr>) = Inr r" ..
  have "\<exists>b. Plot2D_init (grid_arr 41 41) (grid_axis 41) (grid_axis 41) [] [] []
          (no_kwargs\<lparr>kw_hslice_val := Some 2, kw_vslice_val := Some 7\<rparr>) = Inr b"
    using Plot2D_init_grid [of 40 40 "no_kwargs\<lparr>kw_hslice_val := Some 2, kw_vslice_val := Some 7\<rparr>"
        "Some 2" "Some 7" "[]" "[]" "[]"]
    by (auto simp: no_kwargs_def)
  then obtain b where b: "Plot2D_init (grid_arr 41 41) (grid_axis 41) (grid_axis 41) [] [] []
          (no_kwargs\<lparr>kw_hslice_val := Some 2, kw_vslice_val := Some 7\<rparr>) = Inr b" ..
  from layout_exactly_one [OF p] layout_exactly_one [OF q] layout_exactly_one [OF r]
    layout_exactly_one [OF b] p q r b show ?thesis
    by (simp add: no_kwargs_def)
qed



text \<open>
  Claim C8: in every object that the constructor returns, the stored data is the crop
  window of the caller's array, entry for entry, and the stored axes are the windows of
  the caller's axes; the window depends on the axes and the extent only, not on
  \<^verbatim>\<open>vmin\<close> and \<^verbatim>\<open>vmax\<close>. The image handed to the renderer carries this data unchanged,
  with \<open>vmin\<close> and \<open>vmax\<close> beside it as the colour range. The constructor is a function
  of its arguments: it has no assignment into the caller's arrays (the in-place
  \<^verbatim>\<open>np.clip\<close> of line 75 is a comment).
\<close>

theorem data_not_clamped:
  assumes "Plot2D_init arr2d h v xl yl zl kw = Inr p"
  shows "\<exists>e x0 x1 y0 y1. crop_window h v (kw_extent kw) = Inr (e, x0, x1, y0, y1) \<and>
           data p = slice2 y0 y1 x0 x1 arr2d \<and>
           h_axis p = slice1 x0 x1 h \<and> v_axis p = slice1 y0 y1 v \<and>
           map_option im_data (im p) = Some (data p) \<and>
           map_option im_vmin (im p) = Some (vmin p) \<and>
           map_option im_vmax (im p) = Some (vmax p)"
proof -
  from assms obtain s where a: "Plot2D_attrs arr2d h v xl yl zl kw = Inr s"
    and c: "core p = core s" and i: "im p = Some (drawn_image kw s)"
    by (rule Plot2D_init_attrs)
  from Plot2D_attrs_Inr [OF a] obtain e x0 x1 y0 y1 where
    "crop_window h v (kw_extent kw) = Inr (e, x0, x1, y0, y1)"
    "data s = slice2 y0 y1 x0 x1 arr2d" "h_axis s = slice1 x0 x1 h" "v_axis s = slice1 y0 y1 v"
    by blast
  with core_fields [OF c] i have
    "crop_window h v (kw_extent kw) = Inr (e, x0, x1, y0, y1) \<and>
           data p = slice2 y0 y1 x0 x1 arr2d \<and>
           h_axis p = slice1 x0 x1 h \<and> v_axis p = slice1 y0 y1 v \<and>
           map_option im_data (im p) = Some (data p) \<and>
           map_option im_vmin (im p) = Some (vmin p) \<and>
           map_option im_vmax (im p) = Some (vmax p)"
    by (simp add: drawn_image_def)
  then show ?thesis by blast
qed

theorem data_not_clamped_witness:
  "\<exists>p. Plot2D_init arr4 ax4 ax4 [] [] [] (no_kwargs\<lparr>kw_vmin := Some 5, kw_vmax := Some 6\<rparr>) = Inr p \<and>
       data p = [[0, 1, 2], [4, 5, 6], [8, 9, 10]] \<and> map_option im_data (im p) = Some (data p) \<and>
       map_option im_vmin (im p) = Some 5 \<and> map_option im_vmax (im p) = Some 6"
proof -
  have e: "map_sum id (\<lambda>p. (data p, vmin p, vmax p)) (Plot2D_init arr4 ax4 ax4 [] [] [] (no_kwargs\<lparr>kw_vmin := Some 5, kw_vmax := Some 6\<rparr>))
             = Inr ([[0, 1, 2], [4, 5, 6], [8, 9, 10]], 5, 6)"
    by code_simp
  then obtain p where p: "Plot2D_init arr4 ax4 ax4 [] [] [] (no_kwargs\<lparr>kw_vmin := Some 5, kw_vmax := Some 6\<rparr>) = Inr p"
    by (cases "Plot2D_init arr4 ax4 ax4 [] [] [] (no_kwargs\<lparr>kw_vmin := Some 5, kw_vmax := Some 6\<rparr>)") auto
  from data_not_clamped [OF p] e p show ?thesis
    by auto
qed

subsection \<open>Default colours of the slice lines\<close>

text \<open>
  What each branch of \<^verbatim>\<open>draw_fig\<close> has drawn when it returns: the lines and the
  annotations of the main panel, and the curve of each profile, with the options they
  were drawn with.
\<close>

lemma draw_main_only_drawn:
  assumes "draw_main_only kw s = Inr q"
  shows "\<exists>a. ax0 q = Some a \<and> lines a = [] \<and> annotations a = []"
  using assms
  by (auto simp: draw_main_only_def Let_def main_panel_def add_subplot_def)

lemma getrow_Inr: "getrow d i = Inr row \<Longrightarrow> i < length d \<and> row = d ! i"
  by (auto simp: getrow_def split: if_splits)

lemma getcol_Inr: "getcol d j = Inr col \<Longrightarrow> (\<forall>r\<in>set d. j < length r) \<and> col = map (\<lambda>r. r ! j) d"
  by (auto simp: getcol_def list_all_iff split: if_splits)

lemma draw_hslice_drawn:
  assumes "draw_hslice kw i s = Inr q"
  shows "\<exists>a b y c row. ax0 q = Some a \<and> axh q = Some b \<and>
           getitem (v_axis s) (int i) = Inr y \<and>
           dict_getitem (hslice_opts_of kw) ''color'' = Inr c \<and>
           lines a = [Axhline y (hslice_opts_of kw)] \<and>
           map an_vertical (annotations a) = [False] \<and> map an_color (annotations a) = [c] \<and>
           getrow (data s) i = Inr row \<and>
           curve b = Some (h_axis s, row, hslice_opts_of kw)"
  using assms
  apply (simp add: draw_hslice_def Let_def bind_err_assoc main_panel_def on_ax0_def on_axh_def
      axhline_stmt_def annotate_hslice_def plot_hslice_def despine_h_def add_subplot_def plot_xy_def)
  apply (auto simp: bind_err_Inr_iff split: if_splits)
  done

lemma draw_vslice_drawn:
  assumes "draw_vslice kw j s = Inr q"
  shows "\<exists>a b x c col. ax0 q = Some a \<and> axv q = Some b \<and>
           getitem (h_axis s) (int j) = Inr x \<and>
           dict_getitem (vslice_opts_of kw) ''color'' = Inr c \<and>
           lines a = [Axvline x (vslice_opts_of kw)] \<and>
           map an_vertical (annotations a) = [True] \<and> map an_color (annotations a) = [c] \<and>
           getcol (data s) j = Inr col \<and>
           curve b = Some (col, v_axis s, vslice_opts_of kw)"
  using assms
  apply (simp add: draw_vslice_def Let_def bind_err_assoc main_panel_def on_ax0_def on_axv_def
      axvline_stmt_def annotate_vslice_def plot_vslice_def despine_v_def add_subplot_def plot_xy_def)
  apply (auto simp: bind_err_Inr_iff split: if_splits)
  done

lemma draw_both_drawn:
  assumes "draw_both kw i j s = Inr q"
  shows "\<exists>a bh bv y x c c' row col. ax0 q = Some a \<and> axh q = Some bh \<and> axv q = Some bv \<and>
           getitem (v_axis s) (int i) = Inr y \<and> getitem (h_axis s) (int j) = Inr x \<and>
           dict_getitem (hslice_opts_of kw) ''color'' = Inr c \<and>
           dict_getitem (vslice_opts_of kw) ''color'' = Inr c' \<and>
           lines a = [Axhline y (hslice_opts_of kw), Axvline x (vslice_opts_of kw)] \<and>
           map an_vertical (annotations a) = [False, True] \<and> map an_color (annotations a) = [c, c'] \<and>
           getrow (data s) i = Inr row \<and> getcol (data s) j = Inr col \<and>
           curve bh = Some (h_axis s, row, hslice_opts_of kw) \<and>
           curve bv = Some (col, v_axis s, vslice_opts_of kw)"
  using assms
  apply (simp add: draw_both_def Let_def bind_err_assoc main_panel_def on_ax0_def on_axh_def on_axv_def
      axhline_stmt_def axvline_stmt_def annotate_hslice_def annotate_vslice_def
      plot_hslice_def plot_vslice_def despine_h_def despine_v_def add_subplot_def plot_xy_def)
  apply (auto simp: bind_err_Inr_iff split: if_splits)
  done

lemma draw_tail_drawn:
  assumes "draw_tail q = Inr p"
  shows "map_option lines (ax0 p) = map_option lines (ax0 q) \<and>
         map_option annotations (ax0 p) = map_option annotations (ax0 q) \<and>
         axh p = axh q \<and> axv p = axv q"
proof -
  let ?f = "\<lambda>s. (map_option lines (ax0 s), map_option annotations (ax0 s), axh s, axv s)"
  have "?f p = ?f q"
  proof (rule run_preserves [OF assms [unfolded draw_tail_def]])
    fix st a b
    assume "st \<in> set [on_ax0 caption_stmt, on_ax0 colorbar_stmt]" and "st a = Inr b"
    then show "?f b = ?f a"
      by (auto simp: on_ax0_def caption_stmt_def colorbar_stmt_def bind_err_Inr_iff
          split: option.splits if_splits)
  qed
  then show ?thesis by simp
qed

lemma draw_fig_drawn:
  assumes "draw_fig kw s = Inr p"
  shows "\<exists>a c c'. ax0 p = Some a \<and>
           dict_getitem (hslice_opts_of kw) ''color'' = Inr c \<and>
           dict_getitem (vslice_opts_of kw) ''color'' = Inr c' \<and>
           lines a =
             (case hslice_idx s of None \<Rightarrow> [] | Some i \<Rightarrow> [Axhline (v_axis s ! i) (hslice_opts_of kw)]) @
             (case vslice_idx s of None \<Rightarrow> [] | Some j \<Rightarrow> [Axvline (h_axis s ! j) (vslice_opts_of kw)]) \<and>
           map an_vertical (annotations a) =
             (case hslice_idx s of None \<Rightarrow> [] | Some i \<Rightarrow> [False]) @
             (case vslice_idx s of None \<Rightarrow> [] | Some j \<Rightarrow> [True]) \<and>
           map an_color (annotations a) =
             (case hslice_idx s of None \<Rightarrow> [] | Some i \<Rightarrow> [c]) @
             (case vslice_idx s of None \<Rightarrow> [] | Some j \<Rightarrow> [c']) \<and>
           (\<forall>i. hslice_idx s = Some i \<longrightarrow>
              map_option curve (axh p) = Some (Some (h_axis s, data s ! i, hslice_opts_of kw))) \<and>
           (\<forall>j. vslice_idx s = Some j \<longrightarrow>
              map_option curve (axv p) =
                Some (Some (map (\<lambda>r. r ! j) (data s), v_axis s, vslice_opts_of kw)))"
proof -
  from assms obtain q where t: "draw_tail q = Inr p"
    and b: "hslice_idx s = None \<and> vslice_idx s = None \<and> draw_main_only kw s = Inr q
       \<or> (\<exists>i. hslice_idx s = Some i \<and> vslice_idx s = None \<and> draw_hslice kw i s = Inr q)
       \<or> (\<exists>j. hslice_idx s = None \<and> vslice_idx s = Some j \<and> draw_vslice kw j s = Inr q)
       \<or> (\<exists>i j. hslice_idx s = Some i \<and> vslice_idx s = Some j \<and> draw_both kw i j s = Inr q)"
    by (rule draw_fig_Inr)
  obtain c c' where c: "dict_getitem (hslice_opts_of kw) ''color'' = Inr c"
    and c': "dict_getitem (vslice_opts_of kw) ''color'' = Inr c'"
    using color_present by blast
  let ?goal = "\<lambda>q. \<exists>a. ax0 q = Some a \<and>
           lines a =
             (case hslice_idx s of None \<Rightarrow> [] | Some i \<Rightarrow> [Axhline (v_axis s ! i) (hslice_opts_of kw)]) @
             (case vslice_idx s of None \<Rightarrow> [] | Some j \<Rightarrow> [Axvline (h_axis s ! j) (vslice_opts_of kw)]) \<and>
           map an_vertical (annotations a) =
             (case hslice_idx s of None \<Rightarrow> [] | Some i \<Rightarrow> [False]) @
             (case vslice_idx s of None \<Rightarrow> [] | Some j \<Rightarrow> [True]) \<and>
           map an_color (annotations a) =
             (case hslice_idx s of None \<Rightarrow> [] | Some i \<Rightarrow> [c]) @
             (case vslice_idx s of None \<Rightarrow> [] | Some j \<Rightarrow> [c']) \<and>
           (\<forall>i. hslice_idx s = Some i \<longrightarrow>
              map_option curve (axh q) = Some (Some (h_axis s, data s ! i, hslice_opts_of kw))) \<and>
           (\<forall>j. vslice_idx s = Some j \<longrightarrow>
              map_option curve (axv q) =
                Some (Some (map (\<lambda>r. r ! j) (data s), v_axis s, vslice_opts_of kw)))"
  from b consider
      (none) "hslice_idx s = None" "vslice_idx s = None" "draw_main_only kw s = Inr q"
    | (hs) i where "hslice_idx s = Some i" "vslice_idx s = None" "draw_hslice kw i s = Inr q"
    | (vs) j where "hslice_idx s = None" "vslice_idx s = Some j" "draw_vslice kw j s = Inr q"
    | (both) i j where "hslice_idx s = Some i" "vslice_idx s = Some j" "draw_both kw i j s = Inr q"
    by auto
  then have "?goal q"
  proof cases
    case none
    from draw_main_only_drawn [OF none(3)] none(1,2) show ?thesis by auto
  next
    case hs
    from draw_hslice_drawn [OF hs(3)] obtain a b y c0 row where
      f: "ax0 q = Some a" "axh q = Some b" "getitem (v_axis s) (int i) = Inr y"
        "dict_getitem (hslice_opts_of kw) ''color'' = Inr c0"
        "lines a = [Axhline y (hslice_opts_of kw)]"
        "map an_vertical (annotations a) = [False]" "map an_color (annotations a) = [c0]"
        "getrow (data s) i = Inr row"
        "curve b = Some (h_axis s, row, hslice_opts_of kw)"
      by (elim exE conjE) (rule that)
    from f(4) c have "c0 = c" by simp
    with f getitem_nat [OF f(3)] getrow_Inr [OF f(8)] hs(1,2) show ?thesis by simp
  next
    case vs
    from draw_vslice_drawn [OF vs(3)] obtain a b x c0 col where
      f: "ax0 q = Some a" "axv q = Some b" "getitem (h_axis s) (int j) = Inr x"
        "dict_getitem (vslice_opts_of kw) ''color'' = Inr c0"
        "lines a = [Axvline x (vslice_opts_of kw)]"
        "map an_vertical (annotations a) = [True]" "map an_color (annotations a) = [c0]"
        "getcol (data s) j = Inr col"
        "curve b = Some (col, v_axis s, vslice_opts_of kw)"
      by (elim exE conjE) (rule that)
    from f(4) c' have "c0 = c'" by simp
    with f getitem_nat [OF f(3)] getcol_Inr [OF f(8)] vs(1,2) show ?thesis by simp
  next
    case both
    from draw_both_drawn [OF both(3)] obtain a bh bv y x c0 c1 row col where
      f: "ax0 q = Some a" "axh q = Some bh" "axv q = Some bv"
        "getitem (v_axis s) (int i) = Inr y" "getitem (h_axis s) (int j) = Inr x"
        "dict_getitem (hslice_opts_of kw) ''color'' = Inr c0"
        "dict_getitem (vslice_opts_of kw) ''color'' = Inr c1"
        "lines a = [Axhline y (hslice_opts_of kw), Axvline x (vslice_opts_of kw)]"
        "map an_vertical (annotations a) = [False, True]" "map an_color (annotations a) = [c0, c1]"
        "getrow (data s) i = Inr row" "getcol (data s) j = Inr col"
        "curve bh = Some (h_axis s, row, hslice_opts_of kw)"
        "curve bv = Some (col, v_axis s, vslice_opts_of kw)"
      by (elim exE conjE) (rule that)
    from f(6,7) c c' have "c0 = c" "c1 = c'" by simp_all
    with f getitem_nat [OF f(4)] getitem_nat [OF f(5)] getrow_Inr [OF f(11)] getcol_Inr [OF f(12)]
      both(1,2) show ?thesis by simp
  qed
  then obtain a where a: "ax0 q = Some a" and r: "lines a =
             (case hslice_idx s of None \<Rightarrow> [] | Some i \<Rightarrow> [Axhline (v_axis s ! i) (hslice_opts_of kw)]) @
             (case vslice_idx s of None \<Rightarrow> [] | Some j \<Rightarrow> [Axvline (h_axis s ! j) (vslice_opts_of kw)])"
      "map an_vertical (annotations a) =
             (case hslice_idx s of None \<Rightarrow> [] | Some i \<Rightarrow> [False]) @
             (case vslice_idx s of None \<Rightarrow> [] | Some j \<Rightarrow> [True])"
      "map an_color (annotations a) =
             (case hslice_idx s of None \<Rightarrow> [] | Some i \<Rightarrow> [c]) @
             (case vslice_idx s of None \<Rightarrow> [] | Some j \<Rightarrow> [c'])"
    and cv: "\<forall>i. hslice_idx s = Some i \<longrightarrow>
              map_option curve (axh q) = Some (Some (h_axis s, data s ! i, hslice_opts_of kw))"
      "\<forall>j. vslice_idx s = Some j \<longrightarrow>
              map_option curve (axv q) =
                Some (Some (map (\<lambda>r. r ! j) (data s), v_axis s, vslice_opts_of kw))"
    by (elim exE conjE) (rule that)
  from draw_tail_drawn [OF t] a obtain a' where a': "ax0 p = Some a'" "lines a' = lines a"
      "annotations a' = annotations a" and ax: "axh p = axh q" "axv p = axv q"
    by (cases "ax0 p") auto
  from a' r cv c c' show ?thesis
    unfolding ax by (intro exI [of _ a'] exI [of _ c] exI [of _ c']) simp
qed

lemma Plot2D_init_drawn:
  assumes "Plot2D_init arr2d h v xl yl zl kw = Inr p"
  shows "\<exists>a c c'. ax0 p = Some a \<and>
           dict_getitem (hslice_opts_of kw) ''color'' = Inr c \<and>
           dict_getitem (vslice_opts_of kw) ''color'' = Inr c' \<and>
           lines a =
             (case hslice_idx p of None \<Rightarrow> [] | Some i \<Rightarrow> [Axhline (v_axis p ! i) (hslice_opts_of kw)]) @
             (case vslice_idx p of None \<Rightarrow> [] | Some j \<Rightarrow> [Axvline (h_axis p ! j) (vslice_opts_of kw)]) \<and>
           map an_vertical (annotations a) =
             (case hslice_idx p of None \<Rightarrow> [] | Some i \<Rightarrow> [False]) @
             (case vslice_idx p of None \<Rightarrow> [] | Some j \<Rightarrow> [True]) \<and>
           map an_color (annotations a) =
             (case hslice_idx p of None \<Rightarrow> [] | Some i \<Rightarrow> [c]) @
             (case vslice_idx p of None \<Rightarrow> [] | Some j \<Rightarrow> [c']) \<and>
           (\<forall>i. hslice_idx p = Some i \<longrightarrow>
              map_option curve (axh p) = Some (Some (h_axis p, data p ! i, hslice_opts_of kw))) \<and>
           (\<forall>j. vslice_idx p = Some j \<longrightarrow>
              map_option curve (axv p) =
                Some (Some (map (\<lambda>r. r ! j) (data p), v_axis p, vslice_opts_of kw)))"
proof -
  from assms obtain s where d: "draw_fig kw s = Inr p"
    by (rule Plot2D_init_Inr)
  from draw_fig_frame [OF d] have c: "core p = core s" by simp
  from draw_fig_drawn [OF d] show ?thesis
    unfolding core_fields(2,7,8,14,15) [OF c] .
qed

text \<open>
  Claim C9, as the code has it. The claim says that the vertical slice line has a
  default colour different from the horizontal one. Both option dictionaries start as
  copies of the same defaults: in the figure of the 41 by 41 grid with a horizontal slice
  at 2, a vertical slice at 7 and no style options, the horizontal and the vertical line
  of the main panel are drawn with the same options, and the colour of both is firebrick.
\<close>

theorem default_colors_equal:
  "map_sum id (\<lambda>p. map_option lines (ax0 p))
     (Plot2D_init (grid_arr 41 41) (grid_axis 41) (grid_axis 41) [] [] []
        (no_kwargs\<lparr>kw_hslice_val := Some 2, kw_vslice_val := Some 7\<rparr>)) =
     Inr (Some [Axhline 2 [(''ls'', Str ''-''), (''color'', Str ''firebrick''), (''lw'', Num 0.5)],
                Axvline 7 [(''ls'', Str ''-''), (''color'', Str ''firebrick''), (''lw'', Num 0.5)]])"
proof -
  let ?kw = "no_kwargs\<lparr>kw_hslice_val := Some 2, kw_vslice_val := Some 7\<rparr>"
  have "\<exists>s p. Plot2D_attrs (grid_arr 41 41) (grid_axis 41) (grid_axis 41) [] [] [] ?kw = Inr s \<and>
          Plot2D_init (grid_arr 41 41) (grid_axis 41) (grid_axis 41) [] [] [] ?kw = Inr p \<and>
          h_axis s = grid_axis 40 \<and> v_axis s = grid_axis 40 \<and>
          hslice_idx s = Some 2 \<and> vslice_idx s = Some 7"
    using Plot2D_init_grid [of 40 40 ?kw "Some 2" "Some 7" "[]" "[]" "[]"]
    by (auto simp: no_kwargs_def)
  then obtain s p where s: "Plot2D_attrs (grid_arr 41 41) (grid_axis 41) (grid_axis 41) [] [] [] ?kw = Inr s"
    and p: "Plot2D_init (grid_arr 41 41) (grid_axis 41) (grid_axis 41) [] [] [] ?kw = Inr p"
    and f: "h_axis s = grid_axis 40" "v_axis s = grid_axis 40"
      "hslice_idx s = Some 2" "vslice_idx s = Some 7"
    by blast
  from p s have "draw_fig ?kw s = Inr p" by (simp add: Plot2D_init_def)
  from draw_fig_frame [OF this] have c: "core p = core s" by simp
  have o: "hslice_opts_of ?kw = [(''ls'', Str ''-''), (''color'', Str ''firebrick''), (''lw'', Num 0.5)]"
    "vslice_opts_of ?kw = [(''ls'', Str ''-''), (''color'', Str ''firebrick''), (''lw'', Num 0.5)]"
    by (simp_all add: hslice_opts_of_def vslice_opts_of_def no_kwargs_def kwargs_get_def
        dict_update_def slice_opts_def)
  from Plot2D_init_drawn [OF p] obtain a where "ax0 p = Some a"
    and "lines a =
       (case hslice_idx p of None \<Rightarrow> [] | Some i \<Rightarrow> [Axhline (v_axis p ! i) (hslice_opts_of ?kw)]) @
       (case vslice_idx p of None \<Rightarrow> [] | Some j \<Rightarrow> [Axvline (h_axis p ! j) (vslice_opts_of ?kw)])"
    by (elim exE conjE) (rule that)
  with f show ?thesis
    unfolding p core_fields(7,8,14,15) [OF c] o
    by (simp add: nth_grid_axis)
qed

text \<open>
  Claim C9, amended: in every figure that the constructor returns, the main panel holds
  the horizontal line when a horizontal slice is present and the vertical line when a
  vertical slice is present, and no other line; each is drawn with the defaults updated
  by the caller's \<^verbatim>\<open>hslice_opts\<close> (\<^verbatim>\<open>vslice_opts\<close>), so its colour is the caller's
  \<open>color\<close> entry when there is one and firebrick otherwise, for the horizontal and for
  the vertical line alike. The annotation of a slice has the colour of its line, and the
  profile of a slice is drawn with the options of its line. The keys of a dictionary are
  distinct.
\<close>

theorem slice_colors:
  assumes "Plot2D_init arr2d h v xl yl zl kw = Inr p"
    and "distinct (map fst (kwargs_get (kw_hslice_opts kw) []))"
    and "distinct (map fst (kwargs_get (kw_vslice_opts kw) []))"
  shows "\<exists>a ch cv. ax0 p = Some a \<and>
           ch = (case map_of (kwargs_get (kw_hslice_opts kw) []) ''color'' of
                   None \<Rightarrow> Str ''firebrick'' | Some c \<Rightarrow> c) \<and>
           cv = (case map_of (kwargs_get (kw_vslice_opts kw) []) ''color'' of
                   None \<Rightarrow> Str ''firebrick'' | Some c \<Rightarrow> c) \<and>
           dict_getitem (hslice_opts_of kw) ''color'' = Inr ch \<and>
           dict_getitem (vslice_opts_of kw) ''color'' = Inr cv \<and>
           lines a =
             (case hslice_idx p of None \<Rightarrow> [] | Some i \<Rightarrow> [Axhline (v_axis p ! i) (hslice_opts_of kw)]) @
             (case vslice_idx p of None \<Rightarrow> [] | Some j \<Rightarrow> [Axvline (h_axis p ! j) (vslice_opts_of kw)]) \<and>
           map an_vertical (annotations a) =
             (case hslice_idx p of None \<Rightarrow> [] | Some i \<Rightarrow> [False]) @
             (case vslice_idx p of None \<Rightarrow> [] | Some j \<Rightarrow> [True]) \<and>
           map an_color (annotations a) =
             (case hslice_idx p of None \<Rightarrow> [] | Some i \<Rightarrow> [ch]) @
             (case vslice_idx p of None \<Rightarrow> [] | Some j \<Rightarrow> [cv]) \<and>
           (\<forall>i. hslice_idx p = Some i \<longrightarrow>
              map_option curve (axh p) = Some (Some (h_axis p, data p ! i, hslice_opts_of kw))) \<and>
           (\<forall>j. vslice_idx p = Some j \<longrightarrow>
              map_option curve (axv p) =
                Some (Some (map (\<lambda>r. r ! j) (data p), v_axis p, vslice_opts_of kw)))"
proof -
  have h: "dict_getitem (hslice_opts_of kw) ''color'' =
      Inr (case map_of (kwargs_get (kw_hslice_opts kw) []) ''color'' of
                   None \<Rightarrow> Str ''firebrick'' | Some c \<Rightarrow> c)"
    using assms(2) by (simp add: hslice_opts_of_def slice_color)
  have v: "dict_getitem (vslice_opts_of kw) ''color'' =
      Inr (case map_of (kwargs_get (kw_vslice_opts kw) []) ''color'' of
                   None \<Rightarrow> Str ''firebrick'' | Some c \<Rightarrow> c)"
    using assms(3) by (simp add: vslice_opts_of_def slice_color)
  from Plot2D_init_drawn [OF assms(1)] show ?thesis
    unfolding h v by auto
qed

theorem slice_colors_witness:
  "\<exists>p a ho vo. Plot2D_init (grid_arr 41 41) (grid_axis 41) (grid_axis 41) [] [] []
        (no_kwargs\<lparr>kw_hslice_val := Some 2, kw_vslice_val := Some 7,
                    kw_vslice_opts := Some [(''color'', Str ''blue''), (''ls'', Str ''-'')]\<rparr>) = Inr p \<and>
      ax0 p = Some a \<and> lines a = [Axhline 2 ho, Axvline 7 vo] \<and>
      dict_getitem ho ''color'' = Inr (Str ''firebrick'') \<and>
      dict_getitem vo ''color'' = Inr (Str ''blue'') \<and>
      map an_color (annotations a) = [Str ''firebrick'', Str ''blue''] \<and>
      map_option curve (axh p) = Some (Some (h_axis p, data p ! 2, ho)) \<and>
      map_option curve (axv p) = Some (Some (map (\<lambda>r. r ! 7) (data p), v_axis p, vo))"
proof -
  let ?kw = "no_kwargs\<lparr>kw_hslice_val := Some 2, kw_vslice_val := Some 7,
                    kw_vslice_opts := Some [(''color'', Str ''blue''), (''ls'', Str ''-'')]\<rparr>"
  have "\<exists>s p. Plot2D_attrs (grid_arr 41 41) (grid_axis 41) (grid_axis 41) [] [] [] ?kw = Inr s \<and>
          Plot2D_init (grid_arr 41 41) (grid_axis 41) (grid_axis 41) [] [] [] ?kw = Inr p \<and>
          h_axis s = grid_axis 40 \<and> v_axis s = grid_axis 40 \<and>
          hslice_idx s = Some 2 \<and> vslice_idx s = Some 7"
    using Plot2D_init_grid [of 40 40 ?kw "Some 2" "Some 7" "[]" "[]" "[]"]
    by (auto simp: no_kwargs_def)
  then obtain s p where s: "Plot2D_attrs (grid_arr 41 41) (grid_axis 41) (grid_axis 41) [] [] [] ?kw = Inr s"
    and p: "Plot2D_init (grid_arr 41 41) (grid_axis 41) (grid_axis 41) [] [] [] ?kw = Inr p"
    and f: "h_axis s = grid_axis 40" "v_axis s = grid_axis 40"
      "hslice_idx s = Some 2" "vslice_idx s = Some 7"
    by blast
  from p s have "draw_fig ?kw s = Inr p" by (simp add: Plot2D_init_def)
  from draw_fig_frame [OF this] have c: "core p = core s" by simp
  note g = f [folded core_fields(7,8,14,15) [OF c]]
  have d: "distinct (map fst (kwargs_get (kw_hslice_opts ?kw) []))"
    "distinct (map fst (kwargs_get (kw_vslice_opts ?kw) []))"
    by (simp_all add: no_kwargs_def kwargs_get_def)
  from slice_colors [OF p d] g p show ?thesis
    by (auto simp: no_kwargs_def kwargs_get_def nth_grid_axis)
qed

subsection \<open>The fixed offsets of the slice annotations\<close>

text \<open>
  Claim C10, as the code has it. The claim says that every construction whose cropped
  vertical axis has fewer than 40 elements raises IndexError when a vertical slice is
  requested. With the extent \<open>(0, 3, 0, 0)\<close> on the 4 by 4 array the row window is
  \<open>[0:0]\<close>: the cropped vertical axis is empty, and \<^verbatim>\<open>np.amin\<close> raises ValueError at line 67,
  before \<^verbatim>\<open>draw_fig\<close> and its subscripts are reached.
\<close>

theorem empty_crop_vslice_value_error:
  "crop_window ax4 ax4 (Some (0, 3, 0, 0)) = Inr ((0, 3, 0, 0), 0, 3, 0, 0) \<and>
   length (slice1 0 0 ax4) < 40 \<and>
   Plot2D_init arr4 ax4 ax4 [] [] []
     (no_kwargs\<lparr>kw_extent := Some (0, 3, 0, 0), kw_vslice_val := Some 1\<rparr>) = Inl ValueError"
  by code_simp

text \<open>
  Claim C10, amended: when the attributes have been computed (the crop is not empty),
  a vertical slice raises IndexError if the cropped vertical axis has fewer than 40
  elements, and also if the slice index plus the length of the cropped horizontal axis is
  below 40; a horizontal slice raises IndexError if its index plus 3 is not an index of
  the cropped vertical axis or the cropped horizontal axis has fewer than 4 elements.
  When the constructor returns, the vertical annotation sits at
  \<^verbatim>\<open>(h_axis[vslice_idx - 40], v_axis[-40])\<close>, which for an index below 40 is the entry
  \<open>40 - vslice_idx\<close> places before the right end of the horizontal axis, and the horizontal
  annotation sits at \<^verbatim>\<open>(h_axis[3], v_axis[hslice_idx + 3])\<close>.
\<close>

theorem annotation_offsets:
  assumes "Plot2D_attrs arr2d h v xl yl zl kw = Inr s"
  shows "(vslice_idx s \<noteq> None \<and> length (v_axis s) < 40 \<longrightarrow>
            Plot2D_init arr2d h v xl yl zl kw = Inl IndexError) \<and>
         (vslice_idx s = Some j \<and> j + length (h_axis s) < 40 \<longrightarrow>
            Plot2D_init arr2d h v xl yl zl kw = Inl IndexError) \<and>
         (hslice_idx s = Some i \<and> (length (v_axis s) \<le> i + 3 \<or> length (h_axis s) < 4) \<longrightarrow>
            Plot2D_init arr2d h v xl yl zl kw = Inl IndexError) \<and>
         (vslice_idx s = Some j \<and> Plot2D_init arr2d h v xl yl zl kw = Inr p \<longrightarrow>
            40 \<le> length (v_axis s) \<and> 40 \<le> j + length (h_axis s) \<and>
            (\<exists>a an. ax0 p = Some a \<and> an \<in> set (annotations a) \<and> an_vertical an \<and>
               an_xy an = (h_axis s ! (if j < 40 then j + length (h_axis s) - 40 else j - 40),
                           v_axis s ! (length (v_axis s) - 40)))) \<and>
         (hslice_idx s = Some i \<and> Plot2D_init arr2d h v xl yl zl kw = Inr p \<longrightarrow>
            i + 3 < length (v_axis s) \<and> 4 \<le> length (h_axis s) \<and>
            (\<exists>a an. ax0 p = Some a \<and> an \<in> set (annotations a) \<and> \<not> an_vertical an \<and>
               an_xy an = (h_axis s ! 3, v_axis s ! (i + 3))))"
proof -
  have init: "Plot2D_init arr2d h v xl yl zl kw = draw_fig kw s"
    by (simp add: Plot2D_init_def assms)
  have a: "draw_fig kw s = Inl IndexError" if "vslice_idx s \<noteq> None" "length (v_axis s) < 40"
    using that by (intro draw_fig_index_error) auto
  have b: "draw_fig kw s = Inl IndexError" if "vslice_idx s = Some j" "j + length (h_axis s) < 40"
    using that by (intro draw_fig_index_error) auto
  have c: "draw_fig kw s = Inl IndexError"
    if "hslice_idx s = Some i" "length (v_axis s) \<le> i + 3 \<or> length (h_axis s) < 4"
    using that by (intro draw_fig_index_error) auto
  have d: "40 \<le> length (v_axis s) \<and> 40 \<le> j + length (h_axis s) \<and>
            (\<exists>a an. ax0 p = Some a \<and> an \<in> set (annotations a) \<and> an_vertical an \<and>
               an_xy an = (h_axis s ! (if j < 40 then j + length (h_axis s) - 40 else j - 40),
                           v_axis s ! (length (v_axis s) - 40)))"
    if j: "vslice_idx s = Some j" and p: "draw_fig kw s = Inr p"
  proof -
    from draw_fig_vannotation [OF p j] obtain va x y col a
      where x: "getitem (h_axis s) (int j - 40) = Inr x" and y: "getitem (v_axis s) (- 40) = Inr y"
        and a: "ax0 p = Some a"
        and an: "\<lparr>an_value = va, an_xy = (x, y), an_color = col, an_vertical = True\<rparr> \<in> set (annotations a)"
      by blast
    from getitem_offset [OF x] getitem_from_end [OF y] a an show ?thesis
      by (intro conjI exI [of _ a]
          exI [of _ "\<lparr>an_value = va, an_xy = (x, y), an_color = col, an_vertical = True\<rparr>"]) simp_all
  qed
  have e: "i + 3 < length (v_axis s) \<and> 4 \<le> length (h_axis s) \<and>
            (\<exists>a an. ax0 p = Some a \<and> an \<in> set (annotations a) \<and> \<not> an_vertical an \<and>
               an_xy an = (h_axis s ! 3, v_axis s ! (i + 3)))"
    if i: "hslice_idx s = Some i" and p: "draw_fig kw s = Inr p"
  proof -
    from draw_fig_hannotation [OF p i] obtain va x y col a
      where x: "getitem (h_axis s) 3 = Inr x" and y: "getitem (v_axis s) (int i + 3) = Inr y"
        and a: "ax0 p = Some a"
        and an: "\<lparr>an_value = va, an_xy = (x, y), an_color = col, an_vertical = False\<rparr> \<in> set (annotations a)"
      by blast
    from getitem_nat [of "h_axis s" 3 x] x
    have hx: "3 < length (h_axis s)" "x = h_axis s ! 3" by simp_all
    from getitem_nat [of "v_axis s" "i + 3" y] y
    have vy: "i + 3 < length (v_axis s)" "y = v_axis s ! (i + 3)" by simp_all
    from hx vy a an show ?thesis
      by (intro conjI exI [of _ a]
          exI [of _ "\<lparr>an_value = va, an_xy = (x, y), an_color = col, an_vertical = False\<rparr>"])
        simp_all
  qed
  from a b c d e show ?thesis
    unfolding init by blast
qed

theorem annotation_offsets_witness:
  "Plot2D_init arr4 ax4 ax4 [] [] [] (no_kwargs\<lparr>kw_vslice_val := Some 1\<rparr>) = Inl IndexError \<and>
   Plot2D_init arr4 ax4 ax4 [] [] [] (no_kwargs\<lparr>kw_hslice_val := Some 100\<rparr>) = Inl IndexError \<and>
   Plot2D_init (grid_arr 41 22) (grid_axis 22) (grid_axis 41) [] [] []
     (no_kwargs\<lparr>kw_vslice_val := Some 10\<rparr>) = Inl IndexError \<and>
   (\<exists>p a an an'. Plot2D_init (grid_arr 41 401) (grid_axis 401) (grid_axis 41) [] [] []
        (no_kwargs\<lparr>kw_hslice_val := Some 5, kw_vslice_val := Some 10\<rparr>) = Inr p \<and>
      ax0 p = Some a \<and>
      an \<in> set (annotations a) \<and> an_vertical an \<and> an_xy an = (370, 0) \<and>
      an' \<in> set (annotations a) \<and> \<not> an_vertical an' \<and> an_xy an' = (3, 8))"
proof -
  let ?kv = "no_kwargs\<lparr>kw_vslice_val := Some 1\<rparr>"
  let ?kh = "no_kwargs\<lparr>kw_hslice_val := Some 100\<rparr>"
  let ?kn = "no_kwargs\<lparr>kw_vslice_val := Some 10\<rparr>"
  let ?kb = "no_kwargs\<lparr>kw_hslice_val := Some 5, kw_vslice_val := Some 10\<rparr>"
  have "map_sum id (\<lambda>s. (vslice_idx s, length (v_axis s))) (Plot2D_attrs arr4 ax4 ax4 [] [] [] ?kv)
          = Inr (Some 1, 3)"
    by code_simp
  then obtain s1 where s1: "Plot2D_attrs arr4 ax4 ax4 [] [] [] ?kv = Inr s1"
    and f1: "vslice_idx s1 = Some 1" "length (v_axis s1) = 3"
    by (cases "Plot2D_attrs arr4 ax4 ax4 [] [] [] ?kv") auto
  from annotation_offsets [OF s1] f1
  have A: "Plot2D_init arr4 ax4 ax4 [] [] [] ?kv = Inl IndexError"
    by simp
  have "map_sum id (\<lambda>s. (hslice_idx s, length (v_axis s))) (Plot2D_attrs arr4 ax4 ax4 [] [] [] ?kh)
          = Inr (Some 2, 3)"
    by code_simp
  then obtain s2 where s2: "Plot2D_attrs arr4 ax4 ax4 [] [] [] ?kh = Inr s2"
    and f2: "hslice_idx s2 = Some 2" "length (v_axis s2) = 3"
    by (cases "Plot2D_attrs arr4 ax4 ax4 [] [] [] ?kh") auto
  from annotation_offsets [OF s2, where i = 2] f2
  have B: "Plot2D_init arr4 ax4 ax4 [] [] [] ?kh = Inl IndexError"
    by simp
  have "\<exists>s. Plot2D_attrs (grid_arr 41 22) (grid_axis 22) (grid_axis 41) [] [] [] ?kn = Inr s \<and>
          h_axis s = grid_axis 21 \<and> vslice_idx s = Some 10"
    using Plot2D_attrs_grid [of 40 21 ?kn None "Some 10" "[]" "[]" "[]"]
    by (auto simp: no_kwargs_def)
  then obtain s3 where s3: "Plot2D_attrs (grid_arr 41 22) (grid_axis 22) (grid_axis 41) [] [] [] ?kn = Inr s3"
    and f3: "h_axis s3 = grid_axis 21" "vslice_idx s3 = Some 10"
    by blast
  from annotation_offsets [OF s3, where j = 10] f3
  have C: "Plot2D_init (grid_arr 41 22) (grid_axis 22) (grid_axis 41) [] [] [] ?kn = Inl IndexError"
    by (simp add: length_grid_axis)
  have "\<exists>s p. Plot2D_attrs (grid_arr 41 401) (grid_axis 401) (grid_axis 41) [] [] [] ?kb = Inr s \<and>
          Plot2D_init (grid_arr 41 401) (grid_axis 401) (grid_axis 41) [] [] [] ?kb = Inr p \<and>
          h_axis s = grid_axis 400 \<and> v_axis s = grid_axis 40 \<and>
          hslice_idx s = Some 5 \<and> vslice_idx s = Some 10"
    using Plot2D_init_grid [of 40 400 ?kb "Some 5" "Some 10" "[]" "[]" "[]"]
    by (auto simp: no_kwargs_def)
  then obtain s4 p where s4: "Plot2D_attrs (grid_arr 41 401) (grid_axis 401) (grid_axis 41) [] [] [] ?kb = Inr s4"
    and p: "Plot2D_init (grid_arr 41 401) (grid_axis 401) (grid_axis 41) [] [] [] ?kb = Inr p"
    and f4: "h_axis s4 = grid_axis 400" "v_axis s4 = grid_axis 40"
      "hslice_idx s4 = Some 5" "vslice_idx s4 = Some 10"
    by blast
  from annotation_offsets [OF s4, where j = 10 and i = 5 and p = p] p f4
  obtain a an a' an' where "ax0 p = Some a" "an \<in> set (annotations a)" "an_vertical an"
      "an_xy an = (370, 0)"
    and "ax0 p = Some a'" "an' \<in> set (annotations a')" "\<not> an_vertical an'" "an_xy an' = (3, 8)"
    by (auto simp: length_grid_axis nth_grid_axis)
  with p have D: "\<exists>p a an an'. Plot2D_init (grid_arr 41 401) (grid_axis 401) (grid_axis 41) [] [] [] ?kb = Inr p \<and>
      ax0 p = Some a \<and>
      an \<in> set (annotations a) \<and> an_vertical an \<and> an_xy an = (370, 0) \<and>
      an' \<in> set (annotations a) \<and> \<not> an_vertical an' \<and> an_xy an' = (3, 8)"
    by (intro exI [of _ p] exI [of _ a] exI [of _ an] exI [of _ an']) simp
  from A B C D show ?thesis by blast
qed

end
